theory Spec2Isabelle
  imports Main
begin

text \<open>
  A shallow embedding of the Retell webhook processor: the classifier of a call analysis,
  the field validators, configuration loading, the channel adapters, the dispatch of the
  notification tasks and the HTTP handler around them. Pure functions of the source are
  HOL functions of the same name; exceptions are values; the providers, the environment
  and the signature check are fields of a world the handler runs in; every adapter
  returns, next to how its promise settles, the provider calls it made.
\<close>

section \<open>JavaScript strings\<close>

text \<open>
  The handler is TypeScript. A string is modelled as a \<open>string\<close> whose characters are the
  code units below 256. Among those, \<open>String.prototype.trim\<close> removes TAB, LF, VT, FF, CR,
  SPACE and NBSP from both ends, and \<open>toLowerCase\<close> maps \<open>A\<close>..\<open>Z\<close> and the accented
  capitals \<open>0xC0\<close>..\<open>0xDE\<close> (without the multiplication sign \<open>0xD7\<close>) 32 places up.
\<close>

definition is_js_whitespace :: "char \<Rightarrow> bool" where
  "is_js_whitespace c \<longleftrightarrow> (of_char c :: nat) \<in> {9, 10, 11, 12, 13, 32, 160}"

definition js_trim :: "string \<Rightarrow> string" where
  "js_trim s = rev (dropWhile is_js_whitespace (rev (dropWhile is_js_whitespace s)))"

definition js_lower_char :: "char \<Rightarrow> char" where
  "js_lower_char c =
     (let n = (of_char c :: nat)
      in if (65 \<le> n \<and> n \<le> 90) \<or> (192 \<le> n \<and> n \<le> 222 \<and> n \<noteq> 215)
         then char_of (n + 32) else c)"

definition js_toLowerCase :: "string \<Rightarrow> string" where
  "js_toLowerCase s = map js_lower_char s"

text \<open>Truthiness of an optional string: \<open>undefined\<close>, \<open>null\<close> and \<open>''\<close> are falsy.\<close>

definition js_truthy :: "string option \<Rightarrow> bool" where
  "js_truthy v = (case v of None \<Rightarrow> False | Some s \<Rightarrow> s \<noteq> [])"

text \<open>\<open>s.split(c)\<close> for a one-character separator.\<close>

fun js_split :: "char \<Rightarrow> string \<Rightarrow> string list" where
  "js_split c [] = [[]]"
| "js_split c (x # xs) =
     (if x = c then [] # js_split c xs
      else (case js_split c xs of [] \<Rightarrow> [[x]] | y # ys \<Rightarrow> (x # y) # ys))"

text \<open>\<open>xs.join(sep)\<close>.\<close>

fun js_join :: "string \<Rightarrow> string list \<Rightarrow> string" where
  "js_join sep [] = []"
| "js_join sep [x] = x"
| "js_join sep (x # y # ys) = x @ sep @ js_join sep (y # ys)"

text \<open>Decimal rendering of a natural number, as a template string renders a status code.\<close>

fun string_of_nat :: "nat \<Rightarrow> string" where
  "string_of_nat n =
     (if n < 10 then [char_of (48 + n)]
      else string_of_nat (n div 10) @ [char_of (48 + n mod 10)])"

declare string_of_nat.simps [simp del]

text \<open>
  A scalar of a JSON payload where the interface admits \<open>string | number\<close>. A number is
  taken as an integer, which is what a phone number sent as a number is. \<open>String(v)\<close>
  renders a number in decimal and leaves a string as it is; \<open>!v\<close> holds of the empty
  string and of the number 0.
\<close>

datatype js_value = JsString string | JsNumber int

definition string_of_int :: "int \<Rightarrow> string" where
  "string_of_int i =
     (if i < 0 then CHR ''-'' # string_of_nat (nat (- i)) else string_of_nat (nat i))"

fun js_String :: "js_value \<Rightarrow> string" where
  "js_String (JsString s) = s"
| "js_String (JsNumber n) = string_of_int n"

fun js_truthy_value :: "js_value \<Rightarrow> bool" where
  "js_truthy_value (JsString s) = (s \<noteq> [])"
| "js_truthy_value (JsNumber n) = (n \<noteq> 0)"

text \<open>The characters a rendered integer is made of: the minus sign and the ten digits.\<close>

definition numeral_char :: "char \<Rightarrow> bool" where
  "numeral_char c \<longleftrightarrow>
     (of_char c :: nat) = 45 \<or> (48 \<le> (of_char c :: nat) \<and> (of_char c :: nat) \<le> 57)"

section \<open>The call object\<close>

text \<open>
  \<open>RetellCallObject\<close>, restricted to the fields that classification, validation and
  dispatch read. An absent (or \<open>null\<close>) field is \<open>None\<close>. The analysis fields arrive
  either in the flat \<open>analysis\<close> object or nested in \<open>call_analysis.custom_analysis_data\<close>.
  The fields are typed as the interface types them: texts, a boolean flag, and the phone
  number, which is \<open>string | number\<close>.
\<close>

record analysis_data =
  caller_name :: "string option"
  company_name :: "string option"
  caller_phone_number :: "js_value option"
  caller_email_address :: "string option"
  IR_call_description :: "string option"
  non_IR_inquiry_reason :: "string option"
  non_IR_call_description :: "string option"
  is_security_incident :: "bool option"

record call_analysis_obj =
  custom_analysis_data :: "analysis_data option"

record retell_call =
  call_id :: string
  analysis :: "analysis_data option"
  call_analysis :: "call_analysis_obj option"

text \<open>The empty object \<open>{}\<close>.\<close>

definition empty_analysis :: analysis_data where
  "empty_analysis =
     \<lparr>caller_name = None, company_name = None, caller_phone_number = None,
      caller_email_address = None, IR_call_description = None,
      non_IR_inquiry_reason = None, non_IR_call_description = None,
      is_security_incident = None\<rparr>"

text \<open>
  \<open>payload.analysis || payload.call_analysis?.custom_analysis_data || {}\<close>: an object is
  truthy, so the first one present wins.
\<close>

definition get_analysis :: "retell_call \<Rightarrow> analysis_data" where
  "get_analysis payload =
     (case analysis payload of
        Some a \<Rightarrow> a
      | None \<Rightarrow>
          (case call_analysis payload of
             None \<Rightarrow> empty_analysis
           | Some ca \<Rightarrow>
               (case custom_analysis_data ca of
                  None \<Rightarrow> empty_analysis
                | Some d \<Rightarrow> d)))"

section \<open>Classification\<close>

text \<open>\<open>x?.trim()\<close> followed by \<open>!!(t && t.length > 0)\<close>.\<close>

definition trimmed_nonempty :: "string option \<Rightarrow> bool" where
  "trimmed_nonempty v =
     (case map_option js_trim v of
        None \<Rightarrow> False
      | Some t \<Rightarrow> t \<noteq> [] \<and> length t > 0)"

definition isIrCall :: "retell_call \<Rightarrow> bool" where
  "isIrCall payload =
     (let a = get_analysis payload;
          irDescription = IR_call_description a;
          isSecurityIncident = (is_security_incident a = Some True)
      in trimmed_nonempty irDescription \<or> isSecurityIncident)"

definition isNonIrCall :: "retell_call \<Rightarrow> bool" where
  "isNonIrCall payload =
     (let a = get_analysis payload;
          nonIrReason = non_IR_inquiry_reason a;
          nonIrDescription = non_IR_call_description a;
          isSecurityIncident = (is_security_incident a = Some True)
      in if isSecurityIncident then False
         else trimmed_nonempty nonIrReason \<or> trimmed_nonempty nonIrDescription)"

datatype classification = Incident | Inquiry | Unclassified

text \<open>The handler's branch order: \<open>if (isIr) ... else if (isNonIr) ... else ...\<close>.\<close>

definition classify :: "retell_call \<Rightarrow> classification" where
  "classify payload =
     (if isIrCall payload then Incident
      else if isNonIrCall payload then Inquiry
      else Unclassified)"

text \<open>The classifier as the specification words it, over the field mapping.\<close>

definition has_text :: "string option \<Rightarrow> bool" where
  "has_text v = (case v of None \<Rightarrow> False | Some s \<Rightarrow> js_trim s \<noteq> [])"

definition hasIncidentText :: "analysis_data \<Rightarrow> bool" where
  "hasIncidentText a = has_text (IR_call_description a)"

definition isFlaggedIncident :: "analysis_data \<Rightarrow> bool" where
  "isFlaggedIncident a = (is_security_incident a = Some True)"

definition hasInquiryText :: "analysis_data \<Rightarrow> bool" where
  "hasInquiryText a =
     (has_text (non_IR_inquiry_reason a) \<or> has_text (non_IR_call_description a))"

definition classify_spec :: "analysis_data \<Rightarrow> classification" where
  "classify_spec a =
     (if hasIncidentText a \<or> isFlaggedIncident a then Incident
      else if hasInquiryText a \<and> \<not> isFlaggedIncident a then Inquiry
      else Unclassified)"

section \<open>Field validation\<close>

record validation_result =
  valid :: bool
  missingFields :: "string list"

text \<open>
  \<open>!v || String(v).trim() === '' || String(v).trim().toLowerCase() === 'not provided'\<close>,
  the test both validators apply to each field they require.
\<close>

definition field_missing :: "js_value option \<Rightarrow> bool" where
  "field_missing v =
     (case v of
        None \<Rightarrow> True
      | Some x \<Rightarrow>
          \<not> js_truthy_value x \<or> js_trim (js_String x) = [] \<or>
          js_toLowerCase (js_trim (js_String x)) = ''not provided'')"

text \<open>A field the interface types as \<open>string\<close>, as the value the test receives.\<close>

definition as_text :: "string option \<Rightarrow> js_value option" where
  "as_text v = map_option JsString v"

definition validateIrCallData :: "retell_call \<Rightarrow> validation_result" where
  "validateIrCallData payload =
     (let a = get_analysis payload;
          m0 = [];
          m1 = (if is_security_incident a \<noteq> Some True
                then m0 @ [''confirmed security incident (is_security_incident must be true)'']
                else m0);
          m2 = (if field_missing (as_text (caller_name a))
                then m1 @ [''caller first and last name''] else m1);
          m3 = (if field_missing (as_text (company_name a))
                then m2 @ [''company name''] else m2);
          m4 = (if field_missing (caller_phone_number a)
                then m3 @ [''phone number''] else m3)
      in \<lparr>valid = (length m4 = 0), missingFields = m4\<rparr>)"

definition validateNonIrCallData :: "retell_call \<Rightarrow> validation_result" where
  "validateNonIrCallData payload =
     (let a = get_analysis payload;
          m0 = [];
          m1 = (if is_security_incident a = Some True
                then m0 @ [''call must not be a security incident (is_security_incident must be false or not set)'']
                else m0);
          m2 = (if field_missing (as_text (caller_name a))
                then m1 @ [''caller name''] else m1);
          hasPhone = (\<not> field_missing (caller_phone_number a));
          hasEmail = (\<not> field_missing (as_text (caller_email_address a)));
          m3 = (if \<not> hasPhone \<and> \<not> hasEmail
                then m2 @ [''contact information (phone number OR email address)'']
                else m2)
      in \<lparr>valid = (length m3 = 0), missingFields = m3\<rparr>)"

text \<open>
  The validation policy as the specification words it. A text is absent when it is
  missing, empty, whitespace-only, or equal to the placeholder without regard to case.
  Read on a \<open>string | number\<close> value, those words speak of the value's text
  (\<open>present_as_stated\<close>). The policy the validators implement counts a number 0 as
  absent as well (\<open>present_value\<close>).
\<close>

definition placeholder :: string where
  "placeholder = ''not provided''"

definition present :: "string option \<Rightarrow> bool" where
  "present v =
     (case v of
        None \<Rightarrow> False
      | Some s \<Rightarrow>
          js_trim s \<noteq> [] \<and> js_toLowerCase (js_trim s) \<noteq> js_toLowerCase placeholder)"

definition present_as_stated :: "js_value option \<Rightarrow> bool" where
  "present_as_stated v = present (map_option js_String v)"

definition present_value :: "js_value option \<Rightarrow> bool" where
  "present_value v =
     (case v of
        None \<Rightarrow> False
      | Some x \<Rightarrow> js_truthy_value x \<and> present (Some (js_String x)))"

definition incident_missing_spec :: "analysis_data \<Rightarrow> string list" where
  "incident_missing_spec a =
     map snd (filter fst
       [(\<not> isFlaggedIncident a,
           ''confirmed security incident (is_security_incident must be true)''),
        (\<not> present (caller_name a), ''caller first and last name''),
        (\<not> present (company_name a), ''company name''),
        (\<not> present_value (caller_phone_number a), ''phone number'')])"

definition inquiry_missing_spec :: "analysis_data \<Rightarrow> string list" where
  "inquiry_missing_spec a =
     map snd (filter fst
       [(isFlaggedIncident a,
           ''call must not be a security incident (is_security_incident must be false or not set)''),
        (\<not> present (caller_name a), ''caller name''),
        (\<not> (present_value (caller_phone_number a) \<or> present (caller_email_address a)),
           ''contact information (phone number OR email address)'')])"

section \<open>Configuration\<close>

text \<open>
  \<open>ServiceConfig\<close>, restricted to what steers the dispatcher: the provider selection, the
  feature flags and the recipient list of the ticket-failure alert. Credentials and
  addresses are only handed on to the providers.
\<close>

datatype email_provider = Sendgrid | Azure

record feature_flags =
  enableEmail :: bool
  enableTeams :: bool
  enableSms :: bool
  enableJira :: bool

record service_config =
  emailProvider :: email_provider
  jira_failureNotificationRecipients :: string
  featureFlags :: feature_flags

text \<open>A thrown JavaScript exception; all three kinds are instances of \<open>Error\<close>.\<close>

datatype js_error = JsError string | JsTypeError string | JsSyntaxError string

fun message :: "js_error \<Rightarrow> string" where
  "message (JsError m) = m"
| "message (JsTypeError m) = m"
| "message (JsSyntaxError m) = m"

text \<open>\<open>process.env\<close>.\<close>

type_synonym environment = "string \<Rightarrow> string option"

text \<open>\<open>process.env.X?.toLowerCase() === 'true'\<close>.\<close>

definition flag_enabled :: "environment \<Rightarrow> string \<Rightarrow> bool" where
  "flag_enabled env name =
     (case env name of None \<Rightarrow> False | Some v \<Rightarrow> js_toLowerCase v = ''true'')"

text \<open>\<open>process.env.X || d\<close>.\<close>

definition env_or :: "environment \<Rightarrow> string \<Rightarrow> string \<Rightarrow> string" where
  "env_or env name d =
     (case env name of None \<Rightarrow> d | Some v \<Rightarrow> if v = [] then d else v)"

definition selected_provider :: "environment \<Rightarrow> email_provider" where
  "selected_provider env =
     (if (case env ''EMAIL_PROVIDER'' of None \<Rightarrow> False | Some v \<Rightarrow> js_toLowerCase v = ''azure'')
      then Azure else Sendgrid)"

text \<open>The list \<open>requiredEnvVars\<close> after the four conditional pushes.\<close>

definition requiredEnvVars :: "environment \<Rightarrow> string list" where
  "requiredEnvVars env =
     (let r0 = [];
          r1 = (if flag_enabled env ''ENABLE_EMAIL_NOTIFICATIONS''
                then (if selected_provider env = Sendgrid
                      then r0 @ [''SENDGRID_API_KEY'', ''SENDGRID_FROM_EMAIL'', ''IRT_EMAIL_ADDRESS'']
                      else r0 @ [''AZURE_COMMUNICATION_CONNECTION_STRING'',
                                 ''AZURE_COMMUNICATION_SENDER_EMAIL'', ''IRT_EMAIL_ADDRESS''])
                else r0);
          r2 = (if flag_enabled env ''ENABLE_TEAMS_NOTIFICATIONS''
                then r1 @ [''TEAMS_WEBHOOK_URL''] else r1);
          r3 = (if flag_enabled env ''ENABLE_SMS_NOTIFICATIONS''
                then r2 @ [''TWILIO_ACCOUNT_SID'', ''TWILIO_AUTH_TOKEN'',
                           ''TWILIO_FROM_NUMBER'', ''ONCALL_PHONE_NUMBER'']
                else r2);
          r4 = (if flag_enabled env ''ENABLE_JIRA_NOTIFICATIONS''
                then r3 @ [''JIRA_API_URL'', ''JIRA_USER_EMAIL'', ''JIRA_API_TOKEN'',
                           ''JIRA_PROJECT_KEY'']
                else r3)
      in r4)"

definition loadConfiguration :: "environment \<Rightarrow> js_error + service_config" where
  "loadConfiguration env =
     (let missing = filter (\<lambda>varName. \<not> js_truthy (env varName)) (requiredEnvVars env)
      in if length missing > 0
         then Inl (JsError (''Missing required environment variables for enabled features: ''
                            @ js_join '', '' missing))
         else Inr \<lparr>emailProvider = selected_provider env,
                   jira_failureNotificationRecipients =
                     env_or env ''JIRA_FAILURE_NOTIFICATION_RECIPIENTS''
                       ''csirt@procircular.com,jsherlock@procircular.com'',
                   featureFlags =
                     \<lparr>enableEmail = flag_enabled env ''ENABLE_EMAIL_NOTIFICATIONS'',
                      enableTeams = flag_enabled env ''ENABLE_TEAMS_NOTIFICATIONS'',
                      enableSms = flag_enabled env ''ENABLE_SMS_NOTIFICATIONS'',
                      enableJira = flag_enabled env ''ENABLE_JIRA_NOTIFICATIONS''\<rparr>\<rparr>)"

section \<open>The world outside the handler\<close>

text \<open>
  Everything the handler cannot decide itself is a field of the world: the environment,
  the signature check of the Retell SDK, the JSON parser, and what each provider answers.
  For a provider, \<open>None\<close> is a call that returns and \<open>Some e\<close> one that throws \<open>e\<close>
  (an unsuccessful send status is thrown by the adapters as an error as well). Building
  the message bodies is part of the send. \<open>new_EmailClient\<close> is the constructor of the
  Azure e-mail client, \<open>twilio_client\<close> the construction of the Twilio client.
\<close>

record webhook_payload =
  event :: string
  call :: "retell_call option"

text \<open>
  What the ticket tracker does with the issue request: \<open>fetch\<close> (or reading the error
  text) throws; the response is not \<open>ok\<close>, with its status and error text; the response is
  \<open>ok\<close> but its JSON body cannot be read; or the issue is created, with its key.
\<close>

datatype jira_reply =
    FetchThrows js_error
  | HttpNotOk nat string
  | OkBodyUnreadable js_error
  | Created string

text \<open>The Teams webhook: \<open>fetch\<close> throws, or answers not \<open>ok\<close>, or answers \<open>ok\<close>.\<close>

datatype teams_reply =
    TeamsThrows js_error
  | TeamsNotOk nat string
  | TeamsOk

record world =
  process_env :: environment
  retell_verify :: "string \<Rightarrow> string \<Rightarrow> string \<Rightarrow> bool"
  json_parse :: "string \<Rightarrow> js_error + webhook_payload"
  jira_fetch :: jira_reply
  new_EmailClient :: "js_error option"
  failure_email_send :: "js_error option"
  ir_email_send :: "js_error option"
  non_ir_email_send :: "js_error option"
  teams_fetch :: teams_reply
  twilio_client :: "js_error option"
  twilio_create :: "js_error option"

section \<open>Channel adapters\<close>

text \<open>
  Each adapter returns how its promise settles and the provider calls it made:
  \<^item> \<open>JiraIssuePost\<close>: the \<open>fetch\<close> that posts the issue;
  \<^item> \<open>JiraFailureEmail rs\<close>: a call of \<open>sendJiraFailureNotificationEmail\<close>, with the
    recipient list \<open>rs\<close> it computes;
  \<^item> \<open>IncidentEmail\<close>, \<open>InquiryEmail\<close>: the send call of the e-mail provider;
  \<^item> \<open>TeamsCardPost\<close>: the \<open>fetch\<close> to the Teams webhook;
  \<^item> \<open>TwilioSmsCreate\<close>: \<open>client.messages.create\<close>.
\<close>

datatype channel_call =
    JiraIssuePost
  | JiraFailureEmail "string list"
  | IncidentEmail
  | InquiryEmail
  | TeamsCardPost
  | TwilioSmsCreate

datatype settled = Fulfilled | Rejected js_error

type_synonym task_run = "settled \<times> channel_call list"

text \<open>
  \<open>s.includes(',') ? s.split(',').map(email => email.trim()) : [s]\<close>.
\<close>

definition recipient_list :: "string \<Rightarrow> string list" where
  "recipient_list s =
     (if CHR '','' \<in> set s then map js_trim (js_split (CHR '','') s) else [s])"

text \<open>
  \<open>sendJiraFailureNotificationEmail\<close> returns the exception that escapes it, if any.
  Both provider branches catch what the send throws (``Don't throw -- we don't want email
  failures to mask the original JIRA error''); only the construction of the Azure client
  stands outside the \<open>try\<close>.
\<close>

definition sendJiraFailureNotificationEmail ::
  "world \<Rightarrow> service_config \<Rightarrow> retell_call \<Rightarrow> js_error \<Rightarrow> js_error option \<times> channel_call list"
where
  "sendJiraFailureNotificationEmail w config payload error =
     (let recipients = recipient_list (jira_failureNotificationRecipients config)
      in if emailProvider config = Azure
         then (case new_EmailClient w of
                 Some e \<Rightarrow> (Some e, [JiraFailureEmail recipients])
               | None \<Rightarrow>
                   (case failure_email_send w of
                      None \<Rightarrow> (None, [JiraFailureEmail recipients])
                    | Some emailError \<Rightarrow> (None, [JiraFailureEmail recipients])))
         else (case failure_email_send w of
                 None \<Rightarrow> (None, [JiraFailureEmail recipients])
               | Some emailError \<Rightarrow> (None, [JiraFailureEmail recipients])))"

text \<open>
  The \<open>catch\<close> block of \<open>createJiraTicketViaApi\<close>: the alert is sent unless it already
  was, its own exception is swallowed, and the caught error is thrown again.
\<close>

definition jira_catch ::
  "world \<Rightarrow> service_config \<Rightarrow> retell_call \<Rightarrow> js_error \<Rightarrow> bool \<Rightarrow> channel_call list \<Rightarrow> task_run"
where
  "jira_catch w config payload error emailNotificationSent calls =
     (if enableEmail (featureFlags config) \<and> \<not> emailNotificationSent
      then (Rejected error, calls @ snd (sendJiraFailureNotificationEmail w config payload error))
      else (Rejected error, calls))"

definition createJiraTicketViaApi :: "world \<Rightarrow> service_config \<Rightarrow> retell_call \<Rightarrow> task_run" where
  "createJiraTicketViaApi w config payload =
     (let validation = validateIrCallData payload
      in if \<not> valid validation then (Fulfilled, [])
         else
           (case jira_fetch w of
              FetchThrows e \<Rightarrow> jira_catch w config payload e False [JiraIssuePost]
            | HttpNotOk st errorText \<Rightarrow>
                (let error = JsError (''Jira API request failed: '' @ string_of_nat st
                                      @ '' - '' @ errorText)
                 in if enableEmail (featureFlags config)
                    then (case sendJiraFailureNotificationEmail w config payload error of
                            (None, cs) \<Rightarrow>
                              jira_catch w config payload error True ([JiraIssuePost] @ cs)
                          | (Some emailError, cs) \<Rightarrow>
                              jira_catch w config payload error False ([JiraIssuePost] @ cs))
                    else jira_catch w config payload error False [JiraIssuePost])
            | OkBodyUnreadable e \<Rightarrow> jira_catch w config payload e False [JiraIssuePost]
            | Created ticketKey \<Rightarrow> (Fulfilled, [JiraIssuePost])))"

definition sendEmailViaAzure :: "world \<Rightarrow> service_config \<Rightarrow> retell_call \<Rightarrow> task_run" where
  "sendEmailViaAzure w config payload =
     (let validation = validateIrCallData payload
      in if \<not> valid validation then (Fulfilled, [])
         else
           (case new_EmailClient w of
              Some e \<Rightarrow> (Rejected e, [])
            | None \<Rightarrow>
                (case ir_email_send w of
                   None \<Rightarrow> (Fulfilled, [IncidentEmail])
                 | Some e \<Rightarrow> (Rejected e, [IncidentEmail]))))"

definition sendEmailViaSendGrid :: "world \<Rightarrow> service_config \<Rightarrow> retell_call \<Rightarrow> task_run" where
  "sendEmailViaSendGrid w config payload =
     (let validation = validateIrCallData payload
      in if \<not> valid validation then (Fulfilled, [])
         else
           (case ir_email_send w of
              None \<Rightarrow> (Fulfilled, [IncidentEmail])
            | Some e \<Rightarrow> (Rejected e, [IncidentEmail])))"

definition sendEmail :: "world \<Rightarrow> service_config \<Rightarrow> retell_call \<Rightarrow> task_run" where
  "sendEmail w config payload =
     (if emailProvider config = Azure then sendEmailViaAzure w config payload
      else sendEmailViaSendGrid w config payload)"

text \<open>
  \<open>sendTeamsMessage\<close> and \<open>sendSms\<close> destructure \<open>payload.analysis\<close> and read a property
  of it at once: with the nested payload shape that is a \<open>TypeError\<close>.
\<close>

definition sendTeamsMessage :: "world \<Rightarrow> service_config \<Rightarrow> retell_call \<Rightarrow> task_run" where
  "sendTeamsMessage w config payload =
     (case analysis payload of
        None \<Rightarrow>
          (Rejected (JsTypeError
             ''Cannot read properties of undefined (reading 'company_name')''), [])
      | Some a \<Rightarrow>
          (case teams_fetch w of
             TeamsThrows e \<Rightarrow> (Rejected e, [TeamsCardPost])
           | TeamsNotOk st statusText \<Rightarrow>
               (Rejected (JsError (''Teams webhook failed: '' @ string_of_nat st @ '' ''
                                   @ statusText)), [TeamsCardPost])
           | TeamsOk \<Rightarrow> (Fulfilled, [TeamsCardPost])))"

definition sendSms :: "world \<Rightarrow> service_config \<Rightarrow> retell_call \<Rightarrow> task_run" where
  "sendSms w config payload =
     (case twilio_client w of
        Some e \<Rightarrow> (Rejected e, [])
      | None \<Rightarrow>
          (case analysis payload of
             None \<Rightarrow>
               (Rejected (JsTypeError
                  ''Cannot read properties of undefined (reading 'caller_name')''), [])
           | Some a \<Rightarrow>
               (case twilio_create w of
                  None \<Rightarrow> (Fulfilled, [TwilioSmsCreate])
                | Some e \<Rightarrow> (Rejected e, [TwilioSmsCreate]))))"

definition sendNonIrEmail :: "world \<Rightarrow> service_config \<Rightarrow> retell_call \<Rightarrow> task_run" where
  "sendNonIrEmail w config payload =
     (let validation = validateNonIrCallData payload
      in if \<not> valid validation then (Fulfilled, [])
         else if emailProvider config = Azure
         then (case new_EmailClient w of
                 Some e \<Rightarrow> (Rejected e, [])
               | None \<Rightarrow>
                   (case non_ir_email_send w of
                      None \<Rightarrow> (Fulfilled, [InquiryEmail])
                    | Some e \<Rightarrow> (Rejected e, [InquiryEmail])))
         else (case non_ir_email_send w of
                 None \<Rightarrow> (Fulfilled, [InquiryEmail])
               | Some e \<Rightarrow> (Rejected e, [InquiryEmail])))"

section \<open>Dispatch\<close>

datatype task = CreateJiraTicket | SendEmail | SendTeamsMessage | SendSms | SendNonIrEmail

text \<open>
  An \<open>async\<close> function starts running when it is called, so a task is invoked the moment
  it is pushed onto \<open>notificationTasks\<close>. The \<open>.catch\<close> wrappers of the IR and non-IR
  branches log and throw the same error again: the pushed promise settles as the adapter's.
\<close>

definition run_task :: "world \<Rightarrow> service_config \<Rightarrow> retell_call \<Rightarrow> task \<Rightarrow> task_run" where
  "run_task w config payload t =
     (case t of
        CreateJiraTicket \<Rightarrow> createJiraTicketViaApi w config payload
      | SendEmail \<Rightarrow> sendEmail w config payload
      | SendTeamsMessage \<Rightarrow> sendTeamsMessage w config payload
      | SendSms \<Rightarrow> sendSms w config payload
      | SendNonIrEmail \<Rightarrow> sendNonIrEmail w config payload)"

text \<open>
  The four conditional pushes of the IR branch; the branch for unclassified calls repeats
  them in the same order.
\<close>

definition incident_tasks :: "feature_flags \<Rightarrow> task list" where
  "incident_tasks ff =
     (let t0 = [];
          t1 = (if enableJira ff then t0 @ [CreateJiraTicket] else t0);
          t2 = (if enableEmail ff then t1 @ [SendEmail] else t1);
          t3 = (if enableTeams ff then t2 @ [SendTeamsMessage] else t2);
          t4 = (if enableSms ff then t3 @ [SendSms] else t3)
      in t4)"

text \<open>
  \<open>Promise.allSettled\<close> waits for every promise and reports, in order, how each one
  settled.
\<close>

definition Promise_allSettled :: "task_run list \<Rightarrow> settled list" where
  "Promise_allSettled runs = map fst runs"

fun is_fulfilled :: "settled \<Rightarrow> bool" where
  "is_fulfilled Fulfilled = True"
| "is_fulfilled (Rejected e) = False"

fun is_rejected :: "settled \<Rightarrow> bool" where
  "is_rejected Fulfilled = False"
| "is_rejected (Rejected e) = True"

record notification_status =
  total_count :: nat
  successful :: nat
  failed :: nat

record notifications_attempted =
  jira :: bool
  email :: bool
  teams :: bool
  sms :: bool

text \<open>
  The JSON bodies the handler answers with: \<open>{success: false, error}\<close>, the
  acknowledgement of an ignored event, the skip for missing data (message, missing fields,
  call id) and the processed summary (call id, call type, attempted channels, counts).
\<close>

datatype response_body =
    ErrorBody string
  | AcknowledgedBody string
  | SkippedBody string "string list" string
  | ProcessedBody string string notifications_attempted notification_status

fun success :: "response_body \<Rightarrow> bool" where
  "success (ErrorBody e) = False"
| "success (AcknowledgedBody m) = True"
| "success (SkippedBody m fs c) = False"
| "success (ProcessedBody c t a n) = True"

record http_response =
  status :: nat
  jsonBody :: response_body

text \<open>
  What one invocation did after configuration was loaded: the response, the tasks pushed
  onto \<open>notificationTasks\<close>, and how each of them ran.
\<close>

record processing =
  response :: http_response
  notificationTasks :: "task list"
  task_runs :: "task_run list"

definition respond :: "nat \<Rightarrow> response_body \<Rightarrow> processing" where
  "respond st body =
     \<lparr>response = \<lparr>status = st, jsonBody = body\<rparr>, notificationTasks = [], task_runs = []\<rparr>"

text \<open>From \<open>Promise.allSettled\<close> to the final \<open>return\<close>.\<close>

definition settle_and_report ::
  "world \<Rightarrow> service_config \<Rightarrow> retell_call \<Rightarrow> bool \<Rightarrow> bool \<Rightarrow> string \<Rightarrow> task list \<Rightarrow> processing"
where
  "settle_and_report w config payload isIr isNonIr callType tasks =
     (let runs = map (run_task w config payload) tasks;
          results = (if length tasks > 0 then Promise_allSettled runs else []);
          notificationStatus =
            (if length tasks > 0
             then \<lparr>total_count = length tasks,
                   successful = length (filter is_fulfilled results),
                   failed = length (filter is_rejected results)\<rparr>
             else \<lparr>total_count = 0, successful = 0, failed = 0\<rparr>);
          ff = featureFlags config
      in \<lparr>response =
            \<lparr>status = 200,
             jsonBody =
               ProcessedBody (call_id payload) callType
                 \<lparr>jira = (isIr \<and> enableJira ff),
                  email = ((isIr \<and> enableEmail ff) \<or> isNonIr),
                  teams = (isIr \<and> enableTeams ff),
                  sms = (isIr \<and> enableSms ff)\<rparr>
                 notificationStatus\<rparr>,
          notificationTasks = tasks,
          task_runs = runs\<rparr>)"

text \<open>Classification, validation and dispatch of one call, with the configuration loaded.\<close>

definition process_call :: "world \<Rightarrow> service_config \<Rightarrow> retell_call \<Rightarrow> processing" where
  "process_call w config payload =
     (let isIr = isIrCall payload;
          isNonIr = isNonIrCall payload
      in if isIr
         then (let irValidation = validateIrCallData payload
               in if \<not> valid irValidation
                  then respond 200
                         (SkippedBody ''IR call processing skipped - missing required data''
                            (missingFields irValidation) (call_id payload))
                  else settle_and_report w config payload isIr isNonIr ''IR''
                         (incident_tasks (featureFlags config)))
         else if isNonIr
         then (let nonIrValidation = validateNonIrCallData payload
               in if \<not> valid nonIrValidation
                  then respond 200
                         (SkippedBody ''Non-IR call processing skipped - missing required data''
                            (missingFields nonIrValidation) (call_id payload))
                  else settle_and_report w config payload isIr isNonIr ''NON-IR''
                         [SendNonIrEmail])
         else settle_and_report w config payload isIr isNonIr
                ''UNCLASSIFIED (defaulting to IR)'' (incident_tasks (featureFlags config)))"

section \<open>The webhook handler\<close>

record http_request =
  signature_header :: "string option"
  raw_body :: string

datatype handler_step = ReadRawBody | VerifySignature | ParseJson

record handler_run =
  steps :: "handler_step list"
  result :: processing

text \<open>
  Event filtering, extraction of the call object and configuration loading. An exception
  here reaches the handler's outer \<open>catch\<close>, which answers 500 with the error's message.
\<close>

definition process_event :: "world \<Rightarrow> webhook_payload \<Rightarrow> processing" where
  "process_event w webhookPayload =
     (let eventType = event webhookPayload
      in if eventType \<noteq> ''call_analyzed''
         then respond 200
                (AcknowledgedBody (''Event type '' @ eventType @ '' acknowledged but not processed''))
         else
           (case call webhookPayload of
              None \<Rightarrow>
                respond 500
                  (ErrorBody ''Cannot read properties of undefined (reading 'call_id')'')
            | Some payload \<Rightarrow>
                (case loadConfiguration (process_env w) of
                   Inl e \<Rightarrow> respond 500 (ErrorBody (message e))
                 | Inr config \<Rightarrow> process_call w config payload)))"

text \<open>
  The two early returns, taken when \<open>!retellApiKey\<close> respectively \<open>!signature\<close> holds
  (the value is absent or the empty string); the body has not been read then.
\<close>

definition server_misconfigured :: handler_run where
  "server_misconfigured =
     \<lparr>steps = [], result = respond 500 (ErrorBody ''Server configuration error.'')\<rparr>"

definition signature_missing :: handler_run where
  "signature_missing =
     \<lparr>steps = [], result = respond 400 (ErrorBody ''Missing x-retell-signature header.'')\<rparr>"

definition RetellWebhookProcessor :: "world \<Rightarrow> http_request \<Rightarrow> handler_run" where
  "RetellWebhookProcessor w request =
     (case process_env w ''RETELL_API_KEY'' of
        None \<Rightarrow> server_misconfigured
      | Some retellApiKey \<Rightarrow>
          if retellApiKey = [] then server_misconfigured
          else
            (case signature_header request of
               None \<Rightarrow> signature_missing
             | Some signature \<Rightarrow>
                 if signature = [] then signature_missing
                 else
                   (let rawBody = raw_body request
                    in if \<not> retell_verify w rawBody retellApiKey signature
                       then \<lparr>steps = [ReadRawBody, VerifySignature],
                             result = respond 401 (ErrorBody ''Invalid signature.'')\<rparr>
                       else
                         (case json_parse w rawBody of
                            Inl e \<Rightarrow>
                              \<lparr>steps = [ReadRawBody, VerifySignature, ParseJson],
                               result = respond 500 (ErrorBody (message e))\<rparr>
                          | Inr webhookPayload \<Rightarrow>
                              \<lparr>steps = [ReadRawBody, VerifySignature, ParseJson],
                               result = process_event w webhookPayload\<rparr>))))"

section \<open>Channels and their configuration variables\<close>

text \<open>
  The four notification channels with the feature flag that enables each and the
  environment variables each needs, as \<open>loadConfiguration\<close> and the feature-flag
  documentation list them.
\<close>

datatype channel = EmailChannel | TeamsChannel | SmsChannel | JiraChannel

fun channel_flag :: "channel \<Rightarrow> string" where
  "channel_flag EmailChannel = ''ENABLE_EMAIL_NOTIFICATIONS''"
| "channel_flag TeamsChannel = ''ENABLE_TEAMS_NOTIFICATIONS''"
| "channel_flag SmsChannel = ''ENABLE_SMS_NOTIFICATIONS''"
| "channel_flag JiraChannel = ''ENABLE_JIRA_NOTIFICATIONS''"

fun channel_required :: "email_provider \<Rightarrow> channel \<Rightarrow> string list" where
  "channel_required Sendgrid EmailChannel =
     [''SENDGRID_API_KEY'', ''SENDGRID_FROM_EMAIL'', ''IRT_EMAIL_ADDRESS'']"
| "channel_required Azure EmailChannel =
     [''AZURE_COMMUNICATION_CONNECTION_STRING'', ''AZURE_COMMUNICATION_SENDER_EMAIL'',
      ''IRT_EMAIL_ADDRESS'']"
| "channel_required p TeamsChannel = [''TEAMS_WEBHOOK_URL'']"
| "channel_required p SmsChannel =
     [''TWILIO_ACCOUNT_SID'', ''TWILIO_AUTH_TOKEN'', ''TWILIO_FROM_NUMBER'',
      ''ONCALL_PHONE_NUMBER'']"
| "channel_required p JiraChannel =
     [''JIRA_API_URL'', ''JIRA_USER_EMAIL'', ''JIRA_API_TOKEN'', ''JIRA_PROJECT_KEY'']"

definition channel_enabled :: "environment \<Rightarrow> channel \<Rightarrow> bool" where
  "channel_enabled env c = flag_enabled env (channel_flag c)"

text \<open>The channel a task belongs to, and whether the loaded configuration enables it.\<close>

fun task_channel :: "task \<Rightarrow> channel" where
  "task_channel CreateJiraTicket = JiraChannel"
| "task_channel SendEmail = EmailChannel"
| "task_channel SendTeamsMessage = TeamsChannel"
| "task_channel SendSms = SmsChannel"
| "task_channel SendNonIrEmail = EmailChannel"

fun flag_of :: "feature_flags \<Rightarrow> channel \<Rightarrow> bool" where
  "flag_of ff EmailChannel = enableEmail ff"
| "flag_of ff TeamsChannel = enableTeams ff"
| "flag_of ff SmsChannel = enableSms ff"
| "flag_of ff JiraChannel = enableJira ff"

text \<open>The counts a response reports, when it is the processed summary.\<close>

fun reported_status :: "response_body \<Rightarrow> notification_status option" where
  "reported_status (ProcessedBody c t a n) = Some n"
| "reported_status (ErrorBody e) = None"
| "reported_status (AcknowledgedBody m) = None"
| "reported_status (SkippedBody m fs c) = None"


text \<open>
  The outcome invariant of one processing: every pushed task has a run; a response that
  reports counts reports the number of pushed tasks as the total, split into the runs that
  fulfilled and the runs that rejected, and is a success at the request level; a response
  that reports no counts pushed no task.
\<close>

definition outcome_holds :: "processing \<Rightarrow> bool" where
  "outcome_holds r =
     (length (task_runs r) = length (notificationTasks r) \<and>
      (case reported_status (jsonBody (response r)) of
         None \<Rightarrow> notificationTasks r = []
       | Some n \<Rightarrow>
           total_count n = successful n + failed n \<and>
           total_count n = length (notificationTasks r) \<and>
           successful n = length (filter is_fulfilled (Promise_allSettled (task_runs r))) \<and>
           failed n = length (filter is_rejected (Promise_allSettled (task_runs r))) \<and>
           status (response r) = 200 \<and> success (jsonBody (response r))))"

section \<open>Example calls\<close>

text \<open>
  Concrete calls used to exercise the theorems: a flagged call that also carries inquiry
  text, a call in the nested payload shape with both incident and inquiry text, and the
  calls of scenarios A and C of the specification.
\<close>

definition flagged_inquiry_call :: retell_call where
  "flagged_inquiry_call =
     \<lparr>call_id = ''call-1'',
      analysis = Some (empty_analysis\<lparr>non_IR_inquiry_reason := Some ''billing question'',
                                      is_security_incident := Some True\<rparr>),
      call_analysis = None\<rparr>"

definition both_texts_call :: retell_call where
  "both_texts_call =
     \<lparr>call_id = ''call-2'',
      analysis = None,
      call_analysis = Some \<lparr>custom_analysis_data =
        Some (empty_analysis\<lparr>IR_call_description := Some '' ransomware on file server '',
                             non_IR_call_description := Some ''also asked for pricing''\<rparr>)\<rparr>\<rparr>"

definition scenario_A_call :: retell_call where
  "scenario_A_call =
     \<lparr>call_id = ''call-A'',
      analysis = Some (empty_analysis\<lparr>caller_name := Some ''Jane Doe'',
                                      company_name := Some ''Acme'',
                                      caller_phone_number := Some (JsString ''5551234567''),
                                      is_security_incident := Some True\<rparr>),
      call_analysis = None\<rparr>"

definition scenario_C_call :: retell_call where
  "scenario_C_call =
     \<lparr>call_id = ''call-C'',
      analysis = Some (empty_analysis\<lparr>caller_name := Some ''Bob'',
                                      caller_email_address := Some ''bob@x.com'',
                                      non_IR_inquiry_reason := Some ''address check''\<rparr>),
      call_analysis = None\<rparr>"

text \<open>
  Scenario A with the phone number sent as the JSON number 0, an inquiry whose only contact
  is that number, and a flagged call whose company is whitespace and whose phone number is
  the placeholder in another case, surrounded by blanks.
\<close>

definition zero_phone_call :: retell_call where
  "zero_phone_call =
     \<lparr>call_id = ''call-Z'',
      analysis = Some (empty_analysis\<lparr>caller_name := Some ''Jane Doe'',
                                      company_name := Some ''Acme'',
                                      caller_phone_number := Some (JsNumber 0),
                                      is_security_incident := Some True\<rparr>),
      call_analysis = None\<rparr>"

definition zero_phone_inquiry_call :: retell_call where
  "zero_phone_inquiry_call =
     \<lparr>call_id = ''call-Y'',
      analysis = Some (empty_analysis\<lparr>caller_name := Some ''Bob'',
                                      caller_phone_number := Some (JsNumber 0),
                                      non_IR_inquiry_reason := Some ''address check''\<rparr>),
      call_analysis = None\<rparr>"

definition placeholder_call :: retell_call where
  "placeholder_call =
     \<lparr>call_id = ''call-P'',
      analysis = Some (empty_analysis\<lparr>caller_name := Some ''Jane Doe'',
                                      company_name := Some ''   '',
                                      caller_phone_number := Some (JsString '' Not Provided ''),
                                      is_security_incident := Some True\<rparr>),
      call_analysis = None\<rparr>"

text \<open>An unclassified call: a caller name and nothing that either classifier rule reads.\<close>

definition unclassified_call :: retell_call where
  "unclassified_call =
     \<lparr>call_id = ''call-U'',
      analysis = Some (empty_analysis\<lparr>caller_name := Some ''Jane Doe''\<rparr>),
      call_analysis = None\<rparr>"

text \<open>
  Example worlds. The signature check accepts the signature \<open>key:body\<close>, the parser knows
  one body, and every provider answers as told.
\<close>

definition example_verify :: "string \<Rightarrow> string \<Rightarrow> string \<Rightarrow> bool" where
  "example_verify body key signature = (signature = key @ '':'' @ body)"

definition parse_only :: "string \<Rightarrow> webhook_payload \<Rightarrow> string \<Rightarrow> js_error + webhook_payload" where
  "parse_only body payload b =
     (if b = body then Inr payload else Inl (JsSyntaxError ''Unexpected token''))"

definition analyzed :: "retell_call \<Rightarrow> webhook_payload" where
  "analyzed c = \<lparr>event = ''call_analyzed'', call = Some c\<rparr>"

definition example_world :: "environment \<Rightarrow> retell_call \<Rightarrow> world" where
  "example_world env c =
     \<lparr>process_env = env,
      retell_verify = example_verify,
      json_parse = parse_only ''body'' (analyzed c),
      jira_fetch = Created ''IRT-1'',
      new_EmailClient = None,
      failure_email_send = None,
      ir_email_send = None,
      non_ir_email_send = None,
      teams_fetch = TeamsOk,
      twilio_client = None,
      twilio_create = None\<rparr>"

definition signed_request :: http_request where
  "signed_request = \<lparr>signature_header = Some ''key_1:body'', raw_body = ''body''\<rparr>"

definition env_email_disabled :: environment where
  "env_email_disabled =
     [''RETELL_API_KEY'' \<mapsto> ''key_1'',
      ''ENABLE_EMAIL_NOTIFICATIONS'' \<mapsto> ''false'',
      ''SENDGRID_API_KEY'' \<mapsto> ''SG.1'',
      ''SENDGRID_FROM_EMAIL'' \<mapsto> ''noreply@example.com'',
      ''IRT_EMAIL_ADDRESS'' \<mapsto> ''irt@example.com'']"

definition env_sms_only :: environment where
  "env_sms_only =
     [''RETELL_API_KEY'' \<mapsto> ''key_1'',
      ''ENABLE_SMS_NOTIFICATIONS'' \<mapsto> ''true'',
      ''TWILIO_ACCOUNT_SID'' \<mapsto> ''AC1'',
      ''TWILIO_AUTH_TOKEN'' \<mapsto> ''token'',
      ''TWILIO_FROM_NUMBER'' \<mapsto> ''+15550001'',
      ''ONCALL_PHONE_NUMBER'' \<mapsto> ''+15550002'']"

definition env_sms_unconfigured :: environment where
  "env_sms_unconfigured =
     [''RETELL_API_KEY'' \<mapsto> ''key_1'',
      ''ENABLE_SMS_NOTIFICATIONS'' \<mapsto> ''TRUE'',
      ''TWILIO_ACCOUNT_SID'' \<mapsto> ''AC1'',
      ''TWILIO_AUTH_TOKEN'' \<mapsto> ''token'',
      ''TWILIO_FROM_NUMBER'' \<mapsto> ''+15550001'']"

definition env_jira_email :: environment where
  "env_jira_email =
     [''RETELL_API_KEY'' \<mapsto> ''key_1'',
      ''ENABLE_EMAIL_NOTIFICATIONS'' \<mapsto> ''true'',
      ''SENDGRID_API_KEY'' \<mapsto> ''SG.1'',
      ''SENDGRID_FROM_EMAIL'' \<mapsto> ''noreply@example.com'',
      ''IRT_EMAIL_ADDRESS'' \<mapsto> ''irt@example.com'',
      ''ENABLE_JIRA_NOTIFICATIONS'' \<mapsto> ''true'',
      ''JIRA_API_URL'' \<mapsto> ''https://jira.example.com'',
      ''JIRA_USER_EMAIL'' \<mapsto> ''bot@example.com'',
      ''JIRA_API_TOKEN'' \<mapsto> ''token'',
      ''JIRA_PROJECT_KEY'' \<mapsto> ''IRT'']"

definition env_all_channels :: environment where
  "env_all_channels =
     env_jira_email
       (''ENABLE_TEAMS_NOTIFICATIONS'' \<mapsto> ''true'',
        ''TEAMS_WEBHOOK_URL'' \<mapsto> ''https://teams.example.com/hook'',
        ''ENABLE_SMS_NOTIFICATIONS'' \<mapsto> ''true'',
        ''TWILIO_ACCOUNT_SID'' \<mapsto> ''AC1'',
        ''TWILIO_AUTH_TOKEN'' \<mapsto> ''token'',
        ''TWILIO_FROM_NUMBER'' \<mapsto> ''+15550001'',
        ''ONCALL_PHONE_NUMBER'' \<mapsto> ''+15550002'')"

text \<open>The ticket tracker answers 503 while every other provider works.\<close>

definition jira_down_world :: world where
  "jira_down_world =
     (example_world env_all_channels scenario_A_call)\<lparr>jira_fetch := HttpNotOk 503 ''down''\<rparr>"

text \<open>A configuration with every channel enabled, as \<open>env_all_channels\<close> loads it.\<close>

definition all_channels_config :: service_config where
  "all_channels_config =
     \<lparr>emailProvider = Sendgrid,
      jira_failureNotificationRecipients = ''csirt@procircular.com,jsherlock@procircular.com'',
      featureFlags =
        \<lparr>enableEmail = True, enableTeams = True, enableSms = True, enableJira = True\<rparr>\<rparr>"

text \<open>A configuration that enables ticket creation and e-mail only.\<close>

definition jira_email_config :: service_config where
  "jira_email_config =
     \<lparr>emailProvider = Sendgrid,
      jira_failureNotificationRecipients = ''csirt@procircular.com,jsherlock@procircular.com'',
      featureFlags =
        \<lparr>enableEmail = True, enableTeams = False, enableSms = False, enableJira = True\<rparr>\<rparr>"


text \<open>Requests without a signature and with a forged one, and a world without the secret.\<close>

definition unsigned_request :: http_request where
  "unsigned_request = \<lparr>signature_header = None, raw_body = ''body''\<rparr>"

definition forged_request :: http_request where
  "forged_request = \<lparr>signature_header = Some ''forged'', raw_body = ''body''\<rparr>"

definition env_empty :: environment where
  "env_empty = Map.empty"

section \<open>Classification and validation agree with the specification\<close>

lemma js_trim_Nil: "js_trim [] = []"
  by (simp add: js_trim_def)

lemma trimmed_nonempty_has_text: "trimmed_nonempty v = has_text v"
  by (cases v) (auto simp: trimmed_nonempty_def has_text_def)

lemma lower_placeholder: "js_toLowerCase placeholder = ''not provided''"
  by (simp add: placeholder_def js_toLowerCase_def js_lower_char_def)

lemma field_missing_value: "field_missing v \<longleftrightarrow> \<not> present_value v"
  by (cases v) (auto simp: field_missing_def present_value_def present_def lower_placeholder)

lemma field_missing_phone:
  "field_missing (caller_phone_number a) \<longleftrightarrow> \<not> present_value (caller_phone_number a)"
  by (rule field_missing_value)

lemma field_missing_text: "field_missing (as_text v) \<longleftrightarrow> \<not> present v"
proof (cases v)
  case None
  then show ?thesis by (simp add: field_missing_def as_text_def present_def)
next
  case (Some s)
  then show ?thesis
    by (cases "s = []")
       (auto simp: field_missing_def as_text_def present_def lower_placeholder js_trim_Nil)
qed

text \<open>A rendered integer is never empty, blank or the placeholder.\<close>

lemma digit_char: "(n::nat) < 10 \<Longrightarrow> numeral_char (char_of (48 + n))"
  by (simp add: numeral_char_def)

lemma string_of_nat_chars: "\<forall>c \<in> set (string_of_nat n). numeral_char c"
proof (induction n rule: string_of_nat.induct)
  case (1 n)
  show ?case
  proof (cases "n < 10")
    case True
    then show ?thesis by (simp add: string_of_nat.simps [of n] digit_char)
  next
    case False
    with 1 show ?thesis by (simp add: string_of_nat.simps [of n] digit_char)
  qed
qed

lemma string_of_nat_nonempty: "string_of_nat n \<noteq> []"
  by (simp add: string_of_nat.simps [of n])

lemma string_of_int_chars: "\<forall>c \<in> set (string_of_int i). numeral_char c"
  using string_of_nat_chars by (auto simp: string_of_int_def numeral_char_def)

lemma string_of_int_nonempty: "string_of_int i \<noteq> []"
  by (simp add: string_of_int_def string_of_nat_nonempty)

lemma numeral_not_whitespace: "numeral_char c \<Longrightarrow> \<not> is_js_whitespace c"
  by (auto simp: numeral_char_def is_js_whitespace_def)

lemma numeral_lower: "numeral_char c \<Longrightarrow> js_lower_char c \<noteq> CHR ''n''"
  by (auto simp: numeral_char_def js_lower_char_def Let_def)

lemma trim_no_whitespace:
  assumes "\<forall>c \<in> set s. \<not> is_js_whitespace c"
  shows "js_trim s = s"
proof -
  have d: "dropWhile is_js_whitespace t = t" if "\<forall>c \<in> set t. \<not> is_js_whitespace c" for t
    using that by (cases t) auto
  from assms show ?thesis by (simp add: js_trim_def d)
qed

lemma trim_string_of_int: "js_trim (string_of_int i) = string_of_int i"
  using string_of_int_chars numeral_not_whitespace by (intro trim_no_whitespace) blast

lemma lower_string_of_int: "js_toLowerCase (string_of_int i) \<noteq> ''not provided''"
proof
  assume eq: "js_toLowerCase (string_of_int i) = ''not provided''"
  have "CHR ''n'' \<in> set ''not provided''" by simp
  with eq have "CHR ''n'' \<in> js_lower_char ` set (string_of_int i)"
    by (simp add: js_toLowerCase_def flip: set_map)
  then obtain c where "c \<in> set (string_of_int i)" "js_lower_char c = CHR ''n''" by auto
  with string_of_int_chars numeral_lower show False by blast
qed

lemma number_text_present: "present (Some (string_of_int i))"
  by (simp add: present_def trim_string_of_int string_of_int_nonempty lower_string_of_int
      lower_placeholder)

lemma present_value_text: "present_value (Some (JsString s)) = present (Some s)"
  by (cases "s = []") (auto simp: present_value_def present_def js_trim_Nil)

lemma present_value_number: "present_value (Some (JsNumber n)) = (n \<noteq> 0)"
  by (simp add: present_value_def number_text_present)

lemma present_value_None: "present_value None = False"
  by (simp add: present_value_def)

lemma classify_refines: "classify p = classify_spec (get_analysis p)"
  by (auto simp: classify_def classify_spec_def isIrCall_def isNonIrCall_def Let_def
      trimmed_nonempty_has_text hasIncidentText_def hasInquiryText_def isFlaggedIncident_def)

lemma validateIr_refines:
  "validateIrCallData p =
     \<lparr>valid = (incident_missing_spec (get_analysis p) = []),
      missingFields = incident_missing_spec (get_analysis p)\<rparr>"
  by (simp add: validateIrCallData_def incident_missing_spec_def Let_def field_missing_text
      field_missing_phone isFlaggedIncident_def)

lemma validateNonIr_refines:
  "validateNonIrCallData p =
     \<lparr>valid = (inquiry_missing_spec (get_analysis p) = []),
      missingFields = inquiry_missing_spec (get_analysis p)\<rparr>"
  by (simp add: validateNonIrCallData_def inquiry_missing_spec_def Let_def field_missing_text
      field_missing_phone isFlaggedIncident_def)

lemma incident_missing_Nil:
  "incident_missing_spec a = [] \<longleftrightarrow>
     is_security_incident a = Some True \<and> present (caller_name a) \<and>
     present (company_name a) \<and> present_value (caller_phone_number a)"
  by (simp add: incident_missing_spec_def isFlaggedIncident_def)

lemma inquiry_missing_Nil:
  "inquiry_missing_spec a = [] \<longleftrightarrow>
     is_security_incident a \<noteq> Some True \<and> present (caller_name a) \<and>
     (present_value (caller_phone_number a) \<or> present (caller_email_address a))"
  by (simp add: inquiry_missing_spec_def isFlaggedIncident_def)

text \<open>
  Claim C1. For every payload the handler's classification is the one the specification's
  algorithm gives on the field mapping: Incident when the trimmed incident description is
  non-empty or the flag is exactly \<open>true\<close>; otherwise Inquiry when a trimmed inquiry
  reason or inquiry description is non-empty and the flag is not \<open>true\<close>; otherwise
  Unclassified. In particular a \<open>true\<close> flag gives Incident whatever the other fields
  are, and incident text together with inquiry text and no flag gives Incident.
\<close>

theorem classification_follows_spec:
  "classify p = classify_spec (get_analysis p) \<and>
   (is_security_incident (get_analysis p) = Some True \<longrightarrow> classify p = Incident) \<and>
   (hasIncidentText (get_analysis p) \<and> hasInquiryText (get_analysis p) \<and>
      is_security_incident (get_analysis p) \<noteq> Some True \<longrightarrow> classify p = Incident)"
  by (simp add: classify_refines classify_spec_def isFlaggedIncident_def)

text \<open>
  Both special cases occur: a flagged call that carries inquiry text, and an unflagged call
  in the nested payload shape that carries both texts.
\<close>

theorem classification_follows_spec_witness:
  "is_security_incident (get_analysis flagged_inquiry_call) = Some True \<and>
   hasInquiryText (get_analysis flagged_inquiry_call) \<and>
   classify flagged_inquiry_call = Incident \<and>
   hasIncidentText (get_analysis both_texts_call) \<and>
   hasInquiryText (get_analysis both_texts_call) \<and>
   is_security_incident (get_analysis both_texts_call) \<noteq> Some True \<and>
   classify both_texts_call = Incident"
proof -
  have flag: "is_security_incident (get_analysis flagged_inquiry_call) = Some True"
    by (simp add: flagged_inquiry_call_def get_analysis_def empty_analysis_def)
  have inq: "hasInquiryText (get_analysis flagged_inquiry_call)"
    by (simp add: flagged_inquiry_call_def get_analysis_def empty_analysis_def
        hasInquiryText_def has_text_def js_trim_def is_js_whitespace_def)
  have both: "hasIncidentText (get_analysis both_texts_call) \<and>
      hasInquiryText (get_analysis both_texts_call) \<and>
      is_security_incident (get_analysis both_texts_call) \<noteq> Some True"
    by (simp add: both_texts_call_def get_analysis_def empty_analysis_def
        hasIncidentText_def hasInquiryText_def has_text_def js_trim_def is_js_whitespace_def)
  from flag inq both
    classification_follows_spec [of flagged_inquiry_call]
    classification_follows_spec [of both_texts_call]
  show ?thesis by blast
qed

text \<open>
  Claim C3 as it is stated fails where the phone number is the JSON number 0. Its text
  \<open>0\<close> is non-empty, not blank and not the placeholder, so the stated policy is met by
  scenario A with that phone number, and by an inquiry that gives a name and that number;
  both validators start with \<open>!phoneNumber\<close> and report the number missing.
\<close>

theorem validation_fails_for_zero_phone:
  "is_security_incident (get_analysis zero_phone_call) = Some True \<and>
   present (caller_name (get_analysis zero_phone_call)) \<and>
   present (company_name (get_analysis zero_phone_call)) \<and>
   present_as_stated (caller_phone_number (get_analysis zero_phone_call)) \<and>
   validateIrCallData zero_phone_call = \<lparr>valid = False, missingFields = [''phone number'']\<rparr> \<and>
   is_security_incident (get_analysis zero_phone_inquiry_call) \<noteq> Some True \<and>
   present (caller_name (get_analysis zero_phone_inquiry_call)) \<and>
   present_as_stated (caller_phone_number (get_analysis zero_phone_inquiry_call)) \<and>
   validateNonIrCallData zero_phone_inquiry_call =
     \<lparr>valid = False,
      missingFields = [''contact information (phone number OR email address)'']\<rparr>"
  by code_simp

text \<open>
  Claim C3, amended. Validation follows the policy of each classification. A text counts as
  present when, with the surrounding whitespace removed, it is non-empty and differs from
  the placeholder \<open>not provided\<close> without regard to case. The phone number, which may be a
  text or a number, counts as present when it is a present text or a number other than 0.
  Incident validation lists, in the order flag, caller name, company name, phone number,
  every requirement that is not met, and succeeds exactly when the flag is exactly \<open>true\<close>
  and the three fields are present. Inquiry validation succeeds exactly when the flag is
  not \<open>true\<close>, the caller name is present and the phone number or the e-mail address is
  present; the company name plays no part. In both, \<open>valid\<close> holds exactly when
  \<open>missingFields\<close> is empty.
\<close>

theorem validation_matches_policy:
  "(let a = get_analysis p
    in validateIrCallData p =
         \<lparr>valid = (incident_missing_spec a = []), missingFields = incident_missing_spec a\<rparr> \<and>
       (valid (validateIrCallData p) \<longleftrightarrow>
          is_security_incident a = Some True \<and> present (caller_name a) \<and>
          present (company_name a) \<and> present_value (caller_phone_number a)) \<and>
       validateNonIrCallData p =
         \<lparr>valid = (inquiry_missing_spec a = []), missingFields = inquiry_missing_spec a\<rparr> \<and>
       (valid (validateNonIrCallData p) \<longleftrightarrow>
          is_security_incident a \<noteq> Some True \<and> present (caller_name a) \<and>
          (present_value (caller_phone_number a) \<or> present (caller_email_address a))) \<and>
       (valid (validateIrCallData p) \<longleftrightarrow> missingFields (validateIrCallData p) = []) \<and>
       (valid (validateNonIrCallData p) \<longleftrightarrow> missingFields (validateNonIrCallData p) = [])) \<and>
   present_value (Some (JsString s)) = present (Some s) \<and>
   present_value (Some (JsNumber n)) = (n \<noteq> 0) \<and>
   present_value None = False"
  unfolding Let_def validateIr_refines validateNonIr_refines
  by (simp add: incident_missing_Nil inquiry_missing_Nil present_value_text
      present_value_number present_value_None)

text \<open>
  Scenario A passes Incident validation. Scenario C (a name and an e-mail address only)
  passes Inquiry validation and would miss three Incident requirements, listed in order.
  A whitespace-only company and a phone number that is the placeholder in another case,
  surrounded by blanks, are both reported missing. The phone number 0 is absent, the phone
  number 5551234567 sent as a number is present.
\<close>

theorem validation_matches_policy_witness:
  "valid (validateIrCallData scenario_A_call) \<and>
   missingFields (validateIrCallData scenario_A_call) = [] \<and>
   valid (validateNonIrCallData scenario_C_call) \<and>
   missingFields (validateIrCallData scenario_C_call) =
     [''confirmed security incident (is_security_incident must be true)'',
      ''company name'', ''phone number''] \<and>
   missingFields (validateIrCallData placeholder_call) = [''company name'', ''phone number''] \<and>
   \<not> valid (validateIrCallData zero_phone_call) \<and>
   present_value (Some (JsNumber 5551234567))"
proof -
  have A: "is_security_incident (get_analysis scenario_A_call) = Some True \<and>
      present (caller_name (get_analysis scenario_A_call)) \<and>
      present (company_name (get_analysis scenario_A_call)) \<and>
      present_value (caller_phone_number (get_analysis scenario_A_call))"
    by code_simp
  have C: "is_security_incident (get_analysis scenario_C_call) \<noteq> Some True \<and>
      present (caller_name (get_analysis scenario_C_call)) \<and>
      present (caller_email_address (get_analysis scenario_C_call)) \<and>
      \<not> present (company_name (get_analysis scenario_C_call)) \<and>
      \<not> present_value (caller_phone_number (get_analysis scenario_C_call))"
    by code_simp
  have P: "is_security_incident (get_analysis placeholder_call) = Some True \<and>
      present (caller_name (get_analysis placeholder_call)) \<and>
      \<not> present (company_name (get_analysis placeholder_call)) \<and>
      \<not> present_value (caller_phone_number (get_analysis placeholder_call))"
    by code_simp
  have Z: "caller_phone_number (get_analysis zero_phone_call) = Some (JsNumber 0)"
    by code_simp
  note TA = validation_matches_policy [of scenario_A_call "[]" 0, unfolded Let_def]
  note TC = validation_matches_policy [of scenario_C_call "[]" 0, unfolded Let_def]
  note TP = validation_matches_policy [of placeholder_call "[]" 0, unfolded Let_def]
  note TZ = validation_matches_policy [of zero_phone_call "[]" 0, unfolded Let_def]
  note TN = validation_matches_policy [of scenario_A_call "[]" 5551234567, unfolded Let_def]
  from TA A have a1: "valid (validateIrCallData scenario_A_call)" by blast
  from TA a1 have a2: "missingFields (validateIrCallData scenario_A_call) = []" by blast
  from TC C have c1: "valid (validateNonIrCallData scenario_C_call)" by blast
  from TC have "validateIrCallData scenario_C_call =
      \<lparr>valid = (incident_missing_spec (get_analysis scenario_C_call) = []),
       missingFields = incident_missing_spec (get_analysis scenario_C_call)\<rparr>"
    by blast
  then have "missingFields (validateIrCallData scenario_C_call) =
      incident_missing_spec (get_analysis scenario_C_call)"
    by simp
  with C have c2: "missingFields (validateIrCallData scenario_C_call) =
     [''confirmed security incident (is_security_incident must be true)'',
      ''company name'', ''phone number'']"
    by (simp add: incident_missing_spec_def isFlaggedIncident_def)
  from TP have "validateIrCallData placeholder_call =
      \<lparr>valid = (incident_missing_spec (get_analysis placeholder_call) = []),
       missingFields = incident_missing_spec (get_analysis placeholder_call)\<rparr>"
    by blast
  then have "missingFields (validateIrCallData placeholder_call) =
      incident_missing_spec (get_analysis placeholder_call)"
    by simp
  with P have p1: "missingFields (validateIrCallData placeholder_call) =
     [''company name'', ''phone number'']"
    by (simp add: incident_missing_spec_def isFlaggedIncident_def)
  from TZ have "present_value (Some (JsNumber 0)) = ((0::int) \<noteq> 0)" by blast
  then have "\<not> present_value (caller_phone_number (get_analysis zero_phone_call))"
    by (simp add: Z)
  with TZ have z1: "\<not> valid (validateIrCallData zero_phone_call)" by blast
  from TN have "present_value (Some (JsNumber 5551234567)) = ((5551234567::int) \<noteq> 0)"
    by blast
  then have n1: "present_value (Some (JsNumber 5551234567))" by simp
  from a1 a2 c1 c2 p1 z1 n1 show ?thesis by simp
qed

section \<open>The dispatch outcome\<close>

lemma respond_simps:
  "response (respond st body) = \<lparr>status = st, jsonBody = body\<rparr>"
  "notificationTasks (respond st body) = []"
  "task_runs (respond st body) = []"
  by (simp_all add: respond_def)

lemma settled_split_count:
  "length (filter is_fulfilled rs) + length (filter is_rejected rs) = length rs"
proof (induction rs)
  case Nil
  show ?case by simp
next
  case (Cons r rs)
  then show ?case by (cases r) simp_all
qed

lemma settle_and_report_fields:
  "notificationTasks (settle_and_report w config payload isIr isNonIr callType tasks) = tasks"
  "task_runs (settle_and_report w config payload isIr isNonIr callType tasks) =
     map (run_task w config payload) tasks"
  "status (response (settle_and_report w config payload isIr isNonIr callType tasks)) = 200"
  "success (jsonBody (response (settle_and_report w config payload isIr isNonIr callType tasks)))"
  by (simp_all add: settle_and_report_def Let_def)

lemma settle_and_report_status:
  "reported_status (jsonBody (response
       (settle_and_report w config payload isIr isNonIr callType tasks))) =
     Some \<lparr>total_count = length tasks,
           successful = length (filter is_fulfilled
             (Promise_allSettled (map (run_task w config payload) tasks))),
           failed = length (filter is_rejected
             (Promise_allSettled (map (run_task w config payload) tasks)))\<rparr>"
  by (cases tasks) (simp_all add: settle_and_report_def Let_def Promise_allSettled_def comp_assoc)

lemma process_call_cases:
  "process_call w config payload =
     (case classify payload of
        Incident \<Rightarrow>
          if valid (validateIrCallData payload)
          then settle_and_report w config payload True (isNonIrCall payload) ''IR''
                 (incident_tasks (featureFlags config))
          else respond 200
                 (SkippedBody ''IR call processing skipped - missing required data''
                    (missingFields (validateIrCallData payload)) (call_id payload))
      | Inquiry \<Rightarrow>
          if valid (validateNonIrCallData payload)
          then settle_and_report w config payload False True ''NON-IR'' [SendNonIrEmail]
          else respond 200
                 (SkippedBody ''Non-IR call processing skipped - missing required data''
                    (missingFields (validateNonIrCallData payload)) (call_id payload))
      | Unclassified \<Rightarrow>
          settle_and_report w config payload False False ''UNCLASSIFIED (defaulting to IR)''
            (incident_tasks (featureFlags config)))"
  by (simp add: process_call_def classify_def Let_def)

lemma outcome_respond: "reported_status body = None \<Longrightarrow> outcome_holds (respond st body)"
  by (simp add: outcome_holds_def respond_simps)

lemma outcome_settle:
  "outcome_holds (settle_and_report w config payload isIr isNonIr callType tasks)"
  using settled_split_count [of "Promise_allSettled (map (run_task w config payload) tasks)"]
  by (simp add: outcome_holds_def settle_and_report_fields settle_and_report_status
      Promise_allSettled_def)

lemma outcome_process_call: "outcome_holds (process_call w config payload)"
  unfolding process_call_cases
  by (cases "classify payload") (simp_all add: outcome_respond outcome_settle)

lemma outcome_process_event: "outcome_holds (process_event w wp)"
  by (simp add: process_event_def Let_def outcome_respond outcome_process_call
      split: option.splits sum.splits)

lemma outcome_handler: "outcome_holds (result (RetellWebhookProcessor w req))"
  by (simp add: RetellWebhookProcessor_def server_misconfigured_def signature_missing_def
      Let_def outcome_respond outcome_process_event split: option.splits sum.splits)

lemma process_call_runs:
  "task_runs (process_call w config payload) =
     map (run_task w config payload) (notificationTasks (process_call w config payload))"
  unfolding process_call_cases
  by (cases "classify payload") (simp_all add: settle_and_report_fields respond_simps)

lemma count_pos: "x \<in> set xs \<Longrightarrow> P x \<Longrightarrow> 1 \<le> length (filter P xs)"
  by (induction xs) auto

text \<open>
  Claim C4. Every pushed task is run and awaited by the settle-all join: the runs are the
  pushed tasks' own runs, one for each, whatever the sibling tasks do. For every request,
  a response that reports counts has \<open>total = successful + failed\<close> and \<open>total\<close> equal
  to the number of pushed tasks, the counts being those of the fulfilled and the rejected
  runs; and when at least one run rejected and at least one fulfilled, the response reports
  \<open>failed \<ge> 1\<close> and \<open>successful \<ge> 1\<close> and still is a 200 with \<open>success: true\<close>.
\<close>

theorem dispatch_outcome_invariant:
  "task_runs (process_call w config payload) =
     map (run_task w config payload) (notificationTasks (process_call w config payload)) \<and>
   (let r = result (RetellWebhookProcessor w req)
    in length (task_runs r) = length (notificationTasks r) \<and>
       (case reported_status (jsonBody (response r)) of
          None \<Rightarrow> notificationTasks r = []
        | Some n \<Rightarrow>
            total_count n = successful n + failed n \<and>
            total_count n = length (notificationTasks r) \<and>
            successful n = length (filter is_fulfilled (Promise_allSettled (task_runs r))) \<and>
            failed n = length (filter is_rejected (Promise_allSettled (task_runs r)))) \<and>
       ((\<exists>x \<in> set (task_runs r). is_rejected (fst x)) \<and>
        (\<exists>y \<in> set (task_runs r). is_fulfilled (fst y)) \<longrightarrow>
          (\<exists>n. reported_status (jsonBody (response r)) = Some n \<and>
               1 \<le> failed n \<and> 1 \<le> successful n) \<and>
          status (response r) = 200 \<and> success (jsonBody (response r))))"
proof -
  let ?r = "result (RetellWebhookProcessor w req)"
  have inv: "outcome_holds ?r" by (rule outcome_handler)
  have partial: "(\<exists>n. reported_status (jsonBody (response ?r)) = Some n \<and>
               1 \<le> failed n \<and> 1 \<le> successful n) \<and>
          status (response ?r) = 200 \<and> success (jsonBody (response ?r))"
    if rej: "\<exists>x \<in> set (task_runs ?r). is_rejected (fst x)"
      and ful: "\<exists>y \<in> set (task_runs ?r). is_fulfilled (fst y)"
  proof -
    from rej have ne: "notificationTasks ?r \<noteq> []"
      using inv by (auto simp: outcome_holds_def)
    then obtain n where n: "reported_status (jsonBody (response ?r)) = Some n"
      using inv by (cases "reported_status (jsonBody (response ?r))")
        (auto simp: outcome_holds_def)
    from rej obtain x where "x \<in> set (task_runs ?r)" "is_rejected (fst x)" by blast
    then have "1 \<le> length (filter is_rejected (Promise_allSettled (task_runs ?r)))"
      by (intro count_pos [of "fst x"]) (auto simp: Promise_allSettled_def)
    moreover from ful obtain y where "y \<in> set (task_runs ?r)" "is_fulfilled (fst y)" by blast
    then have "1 \<le> length (filter is_fulfilled (Promise_allSettled (task_runs ?r)))"
      by (intro count_pos [of "fst y"]) (auto simp: Promise_allSettled_def)
    ultimately show ?thesis
      using inv n by (simp add: outcome_holds_def)
  qed
  from inv have main: "length (task_runs ?r) = length (notificationTasks ?r) \<and>
       (case reported_status (jsonBody (response ?r)) of
          None \<Rightarrow> notificationTasks ?r = []
        | Some n \<Rightarrow>
            total_count n = successful n + failed n \<and>
            total_count n = length (notificationTasks ?r) \<and>
            successful n = length (filter is_fulfilled (Promise_allSettled (task_runs ?r))) \<and>
            failed n = length (filter is_rejected (Promise_allSettled (task_runs ?r))))"
    by (auto simp: outcome_holds_def split: option.splits)
  from main partial process_call_runs [of w config payload]
  show ?thesis unfolding Let_def by blast
qed

text \<open>
  With the ticket tracker down and the other three channels working, the four tasks settle
  as one failure and three successes, and the request succeeds.
\<close>

theorem dispatch_outcome_invariant_witness:
  "(\<exists>x. x \<in> set (task_runs (result (RetellWebhookProcessor jira_down_world signed_request))) \<and>
        is_rejected (fst x)) \<and>
   (\<exists>y. y \<in> set (task_runs (result (RetellWebhookProcessor jira_down_world signed_request))) \<and>
        is_fulfilled (fst y)) \<and>
   (\<exists>n. reported_status (jsonBody (response
            (result (RetellWebhookProcessor jira_down_world signed_request)))) = Some n \<and>
        total_count n = 4 \<and> total_count n = successful n + failed n \<and>
        1 \<le> failed n \<and> 1 \<le> successful n) \<and>
   status (response (result (RetellWebhookProcessor jira_down_world signed_request))) = 200 \<and>
   success (jsonBody (response (result (RetellWebhookProcessor jira_down_world signed_request))))"
proof -
  let ?r = "result (RetellWebhookProcessor jira_down_world signed_request)"
  have runs: "task_runs ?r =
      [(Rejected (JsError ''Jira API request failed: 503 - down''),
        [JiraIssuePost,
         JiraFailureEmail [''csirt@procircular.com'', ''jsherlock@procircular.com'']]),
       (Fulfilled, [IncidentEmail]), (Fulfilled, [TeamsCardPost]),
       (Fulfilled, [TwilioSmsCreate])]"
    by code_simp
  have tasks: "notificationTasks ?r = [CreateJiraTicket, SendEmail, SendTeamsMessage, SendSms]"
    by code_simp
  have rej: "\<exists>x \<in> set (task_runs ?r). is_rejected (fst x)"
    unfolding runs by simp
  have ful: "\<exists>y \<in> set (task_runs ?r). is_fulfilled (fst y)"
    unfolding runs by simp
  note T = dispatch_outcome_invariant
    [of jira_down_world all_channels_config scenario_A_call signed_request, unfolded Let_def]
  from T rej ful obtain n where n: "reported_status (jsonBody (response ?r)) = Some n"
    "1 \<le> failed n" "1 \<le> successful n"
    and ok: "status (response ?r) = 200" "success (jsonBody (response ?r))"
    by blast
  from T n(1) have "total_count n = successful n + failed n \<and>
      total_count n = length (notificationTasks ?r)"
    by simp
  with tasks have "total_count n = 4 \<and> total_count n = successful n + failed n" by simp
  with n ok rej ful show ?thesis by blast
qed

section \<open>The Inquiry path\<close>

lemma sendNonIrEmail_calls: "set (snd (sendNonIrEmail w config payload)) \<subseteq> {InquiryEmail}"
  by (simp add: sendNonIrEmail_def Let_def split: option.splits)

text \<open>
  Claim C5. For a call classified Inquiry the dispatcher pushes no task but the inquiry
  e-mail, whatever the configuration enables, and the runs make no provider call but the
  inquiry e-mail send: no ticket, chat or SMS call. When Inquiry validation passes, the
  inquiry e-mail task is the one task pushed.
\<close>

theorem inquiry_dispatch_only_email:
  "classify payload = Inquiry \<longrightarrow>
     set (notificationTasks (process_call w config payload)) \<subseteq> {SendNonIrEmail} \<and>
     (\<forall>run \<in> set (task_runs (process_call w config payload)).
        set (snd run) \<subseteq> {InquiryEmail}) \<and>
     (valid (validateNonIrCallData payload) \<longrightarrow>
        notificationTasks (process_call w config payload) = [SendNonIrEmail])"
  using sendNonIrEmail_calls [of w config payload]
  by (simp add: process_call_cases settle_and_report_fields respond_simps run_task_def)

text \<open>
  Scenario C under a configuration that enables ticket, chat and SMS: one task, the
  inquiry e-mail, and one provider call.
\<close>

theorem inquiry_dispatch_only_email_witness:
  "classify scenario_C_call = Inquiry \<and>
   valid (validateNonIrCallData scenario_C_call) \<and>
   enableJira (featureFlags all_channels_config) \<and>
   enableTeams (featureFlags all_channels_config) \<and>
   enableSms (featureFlags all_channels_config) \<and>
   notificationTasks
     (process_call (example_world env_all_channels scenario_C_call) all_channels_config
        scenario_C_call) = [SendNonIrEmail] \<and>
   task_runs
     (process_call (example_world env_all_channels scenario_C_call) all_channels_config
        scenario_C_call) = [(Fulfilled, [InquiryEmail])]"
proof -
  let ?w = "example_world env_all_channels scenario_C_call"
  have c: "classify scenario_C_call = Inquiry" by code_simp
  have v: "valid (validateNonIrCallData scenario_C_call)" by code_simp
  have f: "enableJira (featureFlags all_channels_config) \<and>
      enableTeams (featureFlags all_channels_config) \<and>
      enableSms (featureFlags all_channels_config)"
    by (simp add: all_channels_config_def)
  from c v inquiry_dispatch_only_email [of scenario_C_call ?w all_channels_config]
  have t: "notificationTasks (process_call ?w all_channels_config scenario_C_call) =
      [SendNonIrEmail]"
    by blast
  have "task_runs (process_call ?w all_channels_config scenario_C_call) =
      map (run_task ?w all_channels_config scenario_C_call)
        (notificationTasks (process_call ?w all_channels_config scenario_C_call))"
    by (rule process_call_runs)
  also have "\<dots> = [run_task ?w all_channels_config scenario_C_call SendNonIrEmail]"
    by (simp add: t)
  also have "\<dots> = [(Fulfilled, [InquiryEmail])]"
    by code_simp
  finally show ?thesis using c v f t by simp
qed

section \<open>Tasks that skip their work\<close>

lemma unclassified_invalid:
  "classify payload = Unclassified \<Longrightarrow> \<not> valid (validateIrCallData payload)"
  by (auto simp: classify_def isIrCall_def validateIrCallData_def Let_def split: if_splits)

lemma incident_tasks_no_teams_sms:
  "\<not> enableTeams ff \<Longrightarrow> \<not> enableSms ff \<Longrightarrow>
     set (incident_tasks ff) \<subseteq> {CreateJiraTicket, SendEmail}"
  by (auto simp: incident_tasks_def Let_def)

lemma skipped_ticket:
  "\<not> valid (validateIrCallData payload) \<Longrightarrow>
     createJiraTicketViaApi w config payload = (Fulfilled, [])"
  by (simp add: createJiraTicketViaApi_def Let_def)

lemma skipped_email:
  "\<not> valid (validateIrCallData payload) \<Longrightarrow> sendEmail w config payload = (Fulfilled, [])"
  by (simp add: sendEmail_def sendEmailViaAzure_def sendEmailViaSendGrid_def Let_def)

lemma skipped_inquiry_email:
  "\<not> valid (validateNonIrCallData payload) \<Longrightarrow>
     sendNonIrEmail w config payload = (Fulfilled, [])"
  by (simp add: sendNonIrEmail_def Let_def)

lemma filter_all: "(\<forall>x \<in> set xs. P x) \<Longrightarrow> filter P xs = xs"
  by (induction xs) auto

lemma filter_none: "(\<forall>x \<in> set xs. \<not> P x) \<Longrightarrow> filter P xs = []"
  by (induction xs) auto

text \<open>
  Claim C9. A ticket task or an incident e-mail task whose own re-validation of the payload
  fails, and an inquiry e-mail task whose own re-validation fails, returns early without
  raising: it settles as fulfilled and makes no provider call. The dispatch counts it as
  successful. For an unclassified call, whose Incident validation always fails, with chat
  and SMS disabled, every pushed task is such a task: the response reports all tasks
  successful and none failed although no notification was sent.
\<close>

theorem skipped_tasks_count_as_successful:
  "(\<not> valid (validateIrCallData payload) \<longrightarrow>
      run_task w config payload CreateJiraTicket = (Fulfilled, []) \<and>
      run_task w config payload SendEmail = (Fulfilled, [])) \<and>
   (\<not> valid (validateNonIrCallData payload) \<longrightarrow>
      run_task w config payload SendNonIrEmail = (Fulfilled, [])) \<and>
   (classify payload = Unclassified \<and>
    \<not> enableTeams (featureFlags config) \<and> \<not> enableSms (featureFlags config) \<longrightarrow>
      notificationTasks (process_call w config payload) = incident_tasks (featureFlags config) \<and>
      (\<forall>run \<in> set (task_runs (process_call w config payload)). run = (Fulfilled, [])) \<and>
      reported_status (jsonBody (response (process_call w config payload))) =
        Some \<lparr>total_count = length (incident_tasks (featureFlags config)),
              successful = length (incident_tasks (featureFlags config)),
              failed = 0\<rparr> \<and>
      success (jsonBody (response (process_call w config payload))))"
proof -
  have tasks: "run_task w config payload CreateJiraTicket = (Fulfilled, []) \<and>
      run_task w config payload SendEmail = (Fulfilled, [])"
    if "\<not> valid (validateIrCallData payload)"
    using that by (simp add: run_task_def skipped_ticket skipped_email)
  have inq: "run_task w config payload SendNonIrEmail = (Fulfilled, [])"
    if "\<not> valid (validateNonIrCallData payload)"
    using that by (simp add: run_task_def skipped_inquiry_email)
  have uncl: "notificationTasks (process_call w config payload) =
        incident_tasks (featureFlags config) \<and>
      (\<forall>run \<in> set (task_runs (process_call w config payload)). run = (Fulfilled, [])) \<and>
      reported_status (jsonBody (response (process_call w config payload))) =
        Some \<lparr>total_count = length (incident_tasks (featureFlags config)),
              successful = length (incident_tasks (featureFlags config)),
              failed = 0\<rparr> \<and>
      success (jsonBody (response (process_call w config payload)))"
    if u: "classify payload = Unclassified"
      and nt: "\<not> enableTeams (featureFlags config)" and ns: "\<not> enableSms (featureFlags config)"
  proof -
    let ?ts = "incident_tasks (featureFlags config)"
    from u have pc: "process_call w config payload =
        settle_and_report w config payload False False ''UNCLASSIFIED (defaulting to IR)'' ?ts"
      by (simp add: process_call_cases)
    from u have inv: "\<not> valid (validateIrCallData payload)" by (rule unclassified_invalid)
    have each: "run_task w config payload t = (Fulfilled, [])" if "t \<in> set ?ts" for t
      using that incident_tasks_no_teams_sms [OF nt ns] tasks [OF inv] by auto
    then have all_ful: "\<forall>s \<in> set (Promise_allSettled (map (run_task w config payload) ?ts)).
        is_fulfilled s"
      by (auto simp: Promise_allSettled_def)
    then have none_rej: "\<forall>s \<in> set (Promise_allSettled (map (run_task w config payload) ?ts)).
        \<not> is_rejected s"
      by (metis is_fulfilled.elims(2) is_rejected.simps(1))
    have len: "length (Promise_allSettled (map (run_task w config payload) ?ts)) = length ?ts"
      by (simp add: Promise_allSettled_def)
    show ?thesis
      unfolding pc
      using each len
      by (simp add: settle_and_report_fields settle_and_report_status
          filter_all [OF all_ful] filter_none [OF none_rej])
  qed
  from tasks inq uncl show ?thesis by blast
qed

text \<open>
  The unclassified example call under a configuration with tickets and e-mail enabled: both
  tasks are pushed, both skip, and the response reports two of two successful.
\<close>

theorem skipped_tasks_count_as_successful_witness:
  "\<not> valid (validateIrCallData unclassified_call) \<and>
   \<not> valid (validateNonIrCallData unclassified_call) \<and>
   classify unclassified_call = Unclassified \<and>
   run_task (example_world env_jira_email unclassified_call) jira_email_config
     unclassified_call SendNonIrEmail = (Fulfilled, []) \<and>
   notificationTasks
     (process_call (example_world env_jira_email unclassified_call) jira_email_config
        unclassified_call) = [CreateJiraTicket, SendEmail] \<and>
   task_runs
     (process_call (example_world env_jira_email unclassified_call) jira_email_config
        unclassified_call) = [(Fulfilled, []), (Fulfilled, [])] \<and>
   reported_status (jsonBody (response
     (process_call (example_world env_jira_email unclassified_call) jira_email_config
        unclassified_call))) = Some \<lparr>total_count = 2, successful = 2, failed = 0\<rparr>"
proof -
  let ?w = "example_world env_jira_email unclassified_call"
  let ?p = "process_call ?w jira_email_config unclassified_call"
  note T = skipped_tasks_count_as_successful [of unclassified_call ?w jira_email_config]
  have i: "\<not> valid (validateIrCallData unclassified_call)" by code_simp
  have n: "\<not> valid (validateNonIrCallData unclassified_call)" by code_simp
  have u: "classify unclassified_call = Unclassified" by code_simp
  have f: "\<not> enableTeams (featureFlags jira_email_config) \<and>
      \<not> enableSms (featureFlags jira_email_config)"
    by (simp add: jira_email_config_def)
  have ts: "incident_tasks (featureFlags jira_email_config) = [CreateJiraTicket, SendEmail]"
    by (simp add: jira_email_config_def incident_tasks_def)
  from T i have r1: "run_task ?w jira_email_config unclassified_call CreateJiraTicket =
      (Fulfilled, []) \<and>
      run_task ?w jira_email_config unclassified_call SendEmail = (Fulfilled, [])"
    by blast
  from T n have r2: "run_task ?w jira_email_config unclassified_call SendNonIrEmail =
      (Fulfilled, [])"
    by blast
  from T u f have r3: "notificationTasks ?p = incident_tasks (featureFlags jira_email_config) \<and>
      reported_status (jsonBody (response ?p)) =
        Some \<lparr>total_count = length (incident_tasks (featureFlags jira_email_config)),
              successful = length (incident_tasks (featureFlags jira_email_config)),
              failed = 0\<rparr>"
    by blast
  have "task_runs ?p = map (run_task ?w jira_email_config unclassified_call)
      (notificationTasks ?p)"
    by (rule process_call_runs)
  with r1 r3 ts have r4: "task_runs ?p = [(Fulfilled, []), (Fulfilled, [])]" by simp
  from i n u r2 r3 r4 ts show ?thesis by simp
qed

section \<open>Failure of the ticket task\<close>










section \<open>Signature verification\<close>

text \<open>
  Claim C7. For every request: when the shared secret is absent (unset or empty) the
  handler answers 500 ``Server configuration error.'' without reading or parsing the body;
  when the secret is there and the signature header is absent (or empty) it answers 400, a
  client error distinct from the misconfiguration; when the signature does not verify
  against the raw body text it answers 401 after reading the body and checking the
  signature, without parsing; and whenever the body is parsed, the signature check on the
  raw body has succeeded before.
\<close>

theorem signature_gate:
  "(\<not> js_truthy (process_env w ''RETELL_API_KEY'') \<longrightarrow>
      RetellWebhookProcessor w req =
        \<lparr>steps = [], result = respond 500 (ErrorBody ''Server configuration error.'')\<rparr>) \<and>
   (js_truthy (process_env w ''RETELL_API_KEY'') \<and> \<not> js_truthy (signature_header req) \<longrightarrow>
      RetellWebhookProcessor w req =
        \<lparr>steps = [],
         result = respond 400 (ErrorBody ''Missing x-retell-signature header.'')\<rparr>) \<and>
   (process_env w ''RETELL_API_KEY'' = Some k \<and> k \<noteq> [] \<and>
    signature_header req = Some s \<and> s \<noteq> [] \<and> \<not> retell_verify w (raw_body req) k s \<longrightarrow>
      RetellWebhookProcessor w req =
        \<lparr>steps = [ReadRawBody, VerifySignature],
         result = respond 401 (ErrorBody ''Invalid signature.'')\<rparr>) \<and>
   (ParseJson \<in> set (steps (RetellWebhookProcessor w req)) \<longrightarrow>
      steps (RetellWebhookProcessor w req) = [ReadRawBody, VerifySignature, ParseJson] \<and>
      (\<exists>k s. process_env w ''RETELL_API_KEY'' = Some k \<and> signature_header req = Some s \<and>
             retell_verify w (raw_body req) k s))"
  by (auto simp: RetellWebhookProcessor_def server_misconfigured_def signature_missing_def
      js_truthy_def Let_def split: option.splits sum.splits if_splits)

text \<open>
  The four cases on example requests: no secret, no signature, a forged signature, and a
  good signature, after which the body is parsed.
\<close>

theorem signature_gate_witness:
  "RetellWebhookProcessor (example_world env_empty scenario_A_call) signed_request =
     \<lparr>steps = [], result = respond 500 (ErrorBody ''Server configuration error.'')\<rparr> \<and>
   RetellWebhookProcessor (example_world env_all_channels scenario_A_call) unsigned_request =
     \<lparr>steps = [], result = respond 400 (ErrorBody ''Missing x-retell-signature header.'')\<rparr> \<and>
   RetellWebhookProcessor (example_world env_all_channels scenario_A_call) forged_request =
     \<lparr>steps = [ReadRawBody, VerifySignature],
      result = respond 401 (ErrorBody ''Invalid signature.'')\<rparr> \<and>
   steps (RetellWebhookProcessor (example_world env_all_channels scenario_A_call)
            signed_request) = [ReadRawBody, VerifySignature, ParseJson] \<and>
   retell_verify (example_world env_all_channels scenario_A_call) (raw_body signed_request)
     ''key_1'' ''key_1:body''"
proof -
  let ?w = "example_world env_all_channels scenario_A_call"
  let ?u = "example_world env_empty scenario_A_call"
  have h1: "\<not> js_truthy (process_env ?u ''RETELL_API_KEY'')" by code_simp
  have key: "process_env ?w ''RETELL_API_KEY'' = Some ''key_1''" by code_simp
  then have h2: "js_truthy (process_env ?w ''RETELL_API_KEY'') \<and>
      \<not> js_truthy (signature_header unsigned_request)"
    by (simp add: js_truthy_def unsigned_request_def)
  have h3: "signature_header forged_request = Some ''forged'' \<and>
      \<not> retell_verify ?w (raw_body forged_request) ''key_1'' ''forged''"
    by (simp add: forged_request_def example_world_def example_verify_def)
  have h4: "ParseJson \<in> set (steps (RetellWebhookProcessor ?w signed_request))" by code_simp
  have v: "retell_verify ?w (raw_body signed_request) ''key_1'' ''key_1:body''"
    by (simp add: signed_request_def example_world_def example_verify_def)
  from h1 signature_gate [of ?u signed_request]
  have r1: "RetellWebhookProcessor ?u signed_request =
     \<lparr>steps = [], result = respond 500 (ErrorBody ''Server configuration error.'')\<rparr>"
    by blast
  from h2 signature_gate [of ?w unsigned_request]
  have r2: "RetellWebhookProcessor ?w unsigned_request =
     \<lparr>steps = [], result = respond 400 (ErrorBody ''Missing x-retell-signature header.'')\<rparr>"
    by blast
  from key h3 signature_gate [of ?w forged_request "''key_1''" "''forged''"]
  have r3: "RetellWebhookProcessor ?w forged_request =
     \<lparr>steps = [ReadRawBody, VerifySignature],
      result = respond 401 (ErrorBody ''Invalid signature.'')\<rparr>"
    by simp
  from h4 signature_gate [of ?w signed_request]
  have r4: "steps (RetellWebhookProcessor ?w signed_request) =
      [ReadRawBody, VerifySignature, ParseJson]"
    by blast
  from r1 r2 r3 r4 v show ?thesis by blast
qed

section \<open>Configuration loading\<close>

lemma requiredEnvVars_set:
  "set (requiredEnvVars env) =
     (\<Union>c \<in> {c. channel_enabled env c}. set (channel_required (selected_provider env) c))"
proof -
  have univ: "{c. channel_enabled env c} =
      (if channel_enabled env EmailChannel then {EmailChannel} else {}) \<union>
      (if channel_enabled env TeamsChannel then {TeamsChannel} else {}) \<union>
      (if channel_enabled env SmsChannel then {SmsChannel} else {}) \<union>
      (if channel_enabled env JiraChannel then {JiraChannel} else {})"
    (is "?L = ?R")
  proof
    show "?L \<subseteq> ?R"
    proof
      fix c assume "c \<in> ?L"
      then show "c \<in> ?R" by (cases c) auto
    qed
    show "?R \<subseteq> ?L" by (auto split: if_splits)
  qed
  show ?thesis
    unfolding univ
    by (cases "selected_provider env")
       (auto simp: requiredEnvVars_def Let_def channel_enabled_def)
qed

lemma missing_raises:
  assumes "v \<in> set (requiredEnvVars env)" and "\<not> js_truthy (env v)"
  shows "loadConfiguration env =
     Inl (JsError (''Missing required environment variables for enabled features: '' @
       js_join '', '' (filter (\<lambda>varName. \<not> js_truthy (env varName)) (requiredEnvVars env))))"
proof -
  from assms have "v \<in> set (filter (\<lambda>varName. \<not> js_truthy (env varName)) (requiredEnvVars env))"
    by simp
  then have "filter (\<lambda>varName. \<not> js_truthy (env varName)) (requiredEnvVars env) \<noteq> []"
    by (metis empty_iff empty_set)
  then show ?thesis by (simp add: loadConfiguration_def Let_def)
qed

text \<open>
  Claim C10. For every verified \<open>call_analyzed\<close> event with a call object: if a channel is
  enabled and one of the variables it requires is absent (unset or empty), configuration
  loading raises, and the request is answered 500 with that error's message and
  \<open>success: false\<close>; no task is pushed and no adapter runs.
\<close>

theorem missing_configuration_fails_request:
  assumes "process_env w ''RETELL_API_KEY'' = Some k" and "k \<noteq> []"
    and "signature_header req = Some s" and "s \<noteq> []"
    and "retell_verify w (raw_body req) k s"
    and "json_parse w (raw_body req) = Inr wp"
    and "event wp = ''call_analyzed''" and "call wp = Some payload"
    and "channel_enabled (process_env w) c"
    and "v \<in> set (channel_required (selected_provider (process_env w)) c)"
    and "\<not> js_truthy (process_env w v)"
  shows "\<exists>m. loadConfiguration (process_env w) = Inl (JsError m) \<and>
      response (result (RetellWebhookProcessor w req)) =
        \<lparr>status = 500, jsonBody = ErrorBody m\<rparr> \<and>
      \<not> success (jsonBody (response (result (RetellWebhookProcessor w req)))) \<and>
      notificationTasks (result (RetellWebhookProcessor w req)) = [] \<and>
      task_runs (result (RetellWebhookProcessor w req)) = []"
proof -
  from assms(9,10) have "v \<in> set (requiredEnvVars (process_env w))"
    unfolding requiredEnvVars_set by blast
  from missing_raises [OF this assms(11)]
  obtain m where m: "loadConfiguration (process_env w) = Inl (JsError m)" by blast
  from assms(1-8) m have "result (RetellWebhookProcessor w req) = respond 500 (ErrorBody m)"
    by (simp add: RetellWebhookProcessor_def process_event_def Let_def)
  with m show ?thesis by (simp add: respond_simps)
qed

text \<open>
  SMS is enabled without the on-call number: the well-formed scenario A call, signed and
  verified, is answered 500.
\<close>

theorem missing_configuration_fails_request_witness:
  "channel_enabled env_sms_unconfigured SmsChannel \<and>
   ''ONCALL_PHONE_NUMBER'' \<in> set (channel_required (selected_provider env_sms_unconfigured) SmsChannel) \<and>
   \<not> js_truthy (env_sms_unconfigured ''ONCALL_PHONE_NUMBER'') \<and>
   valid (validateIrCallData scenario_A_call) \<and>
   (\<exists>m. loadConfiguration env_sms_unconfigured = Inl (JsError m) \<and>
      result (RetellWebhookProcessor (example_world env_sms_unconfigured scenario_A_call)
                signed_request) = respond 500 (ErrorBody m))"
proof -
  let ?w = "example_world env_sms_unconfigured scenario_A_call"
  have env: "process_env ?w = env_sms_unconfigured" by (simp add: example_world_def)
  have h1: "process_env ?w ''RETELL_API_KEY'' = Some ''key_1''" by code_simp
  have h3: "signature_header signed_request = Some ''key_1:body''"
    by (simp add: signed_request_def)
  have h5: "retell_verify ?w (raw_body signed_request) ''key_1'' ''key_1:body''"
    by (simp add: signed_request_def example_world_def example_verify_def)
  have h6: "json_parse ?w (raw_body signed_request) = Inr (analyzed scenario_A_call)"
    by (simp add: signed_request_def example_world_def parse_only_def)
  have h7: "event (analyzed scenario_A_call) = ''call_analyzed''"
    and h8: "call (analyzed scenario_A_call) = Some scenario_A_call"
    by (simp_all add: analyzed_def)
  have h9: "channel_enabled env_sms_unconfigured SmsChannel" by code_simp
  have h10: "''ONCALL_PHONE_NUMBER'' \<in>
      set (channel_required (selected_provider env_sms_unconfigured) SmsChannel)"
    by simp
  have h11: "\<not> js_truthy (env_sms_unconfigured ''ONCALL_PHONE_NUMBER'')" by code_simp
  have ok: "valid (validateIrCallData scenario_A_call)" by code_simp
  from missing_configuration_fails_request [of ?w "''key_1''" signed_request "''key_1:body''"
      "analyzed scenario_A_call" scenario_A_call SmsChannel "''ONCALL_PHONE_NUMBER''"]
    h1 h3 h5 h6 h7 h8 h9 h10 h11
  obtain m where m: "loadConfiguration env_sms_unconfigured = Inl (JsError m)"
    "response (result (RetellWebhookProcessor ?w signed_request)) =
        \<lparr>status = 500, jsonBody = ErrorBody m\<rparr>"
    "notificationTasks (result (RetellWebhookProcessor ?w signed_request)) = []"
    "task_runs (result (RetellWebhookProcessor ?w signed_request)) = []"
    unfolding env by auto
  then have "result (RetellWebhookProcessor ?w signed_request) = respond 500 (ErrorBody m)"
    by (simp add: respond_def)
  with m(1) h9 h10 h11 ok show ?thesis by blast
qed

section \<open>Unclassified calls\<close>

text \<open>
  An unclassified call never meets the Incident policy, since its flag is not \<open>true\<close>; yet
  the branch for unclassified calls pushes the enabled incident tasks at once and the
  response is the processed summary, never the skip.
\<close>

lemma unclassified_not_validated:
  assumes "classify payload = Unclassified"
  shows "\<not> valid (validateIrCallData payload)"
    and "process_call w config payload =
      settle_and_report w config payload False False ''UNCLASSIFIED (defaulting to IR)''
        (incident_tasks (featureFlags config))"
    and "notificationTasks (process_call w config payload) = incident_tasks (featureFlags config)"
    and "success (jsonBody (response (process_call w config payload)))"
  using assms
  by (simp_all add: unclassified_invalid process_call_cases settle_and_report_fields)

text \<open>
  Claim C2 asks that an unclassified call is validated against the Incident policy before
  dispatch and, the policy being unmet, is answered with the skip carrying the missing
  fields, no channel being invoked. The handler does otherwise. On the unclassified example
  call, which misses three Incident requirements, with SMS enabled: the SMS task is pushed,
  the SMS provider is called, and the response is the processed summary with one of one
  notifications successful.
\<close>

theorem unclassified_call_dispatched_unvalidated:
  "classify unclassified_call = Unclassified \<and>
   validateIrCallData unclassified_call =
     \<lparr>valid = False,
      missingFields =
        [''confirmed security incident (is_security_incident must be true)'',
         ''company name'', ''phone number'']\<rparr> \<and>
   RetellWebhookProcessor (example_world env_sms_only unclassified_call) signed_request =
     \<lparr>steps = [ReadRawBody, VerifySignature, ParseJson],
      result =
        \<lparr>response =
           \<lparr>status = 200,
            jsonBody =
              ProcessedBody ''call-U'' ''UNCLASSIFIED (defaulting to IR)''
                \<lparr>jira = False, email = False, teams = False, sms = False\<rparr>
                \<lparr>total_count = 1, successful = 1, failed = 0\<rparr>\<rparr>,
         notificationTasks = [SendSms],
         task_runs = [(Fulfilled, [TwilioSmsCreate])]\<rparr>\<rparr>"
  by code_simp

section \<open>Disabled channels\<close>

text \<open>
  On the Incident path and on the path for unclassified calls every pushed task belongs to a
  channel whose flag is set.
\<close>

lemma incident_tasks_enabled:
  "t \<in> set (incident_tasks ff) \<Longrightarrow> flag_of ff (task_channel t)"
  by (auto simp: incident_tasks_def Let_def split: if_splits)

lemma incident_paths_respect_flags:
  assumes "classify payload \<noteq> Inquiry"
    and "t \<in> set (notificationTasks (process_call w config payload))"
  shows "flag_of (featureFlags config) (task_channel t)"
  using assms
  by (cases "classify payload")
     (auto simp: process_call_cases settle_and_report_fields respond_simps
        incident_tasks_enabled split: if_splits)

text \<open>
  Claim C6 asks that no task is pushed for a channel whose flag is false. The Inquiry path
  pushes its e-mail task without consulting the e-mail flag. With the e-mail flag set to
  \<open>false\<close> and no other channel enabled, the scenario C call makes the handler push the
  inquiry e-mail task, call the e-mail provider and report one of one notifications
  successful.
\<close>

theorem inquiry_email_pushed_while_email_disabled:
  "loadConfiguration env_email_disabled =
     Inr \<lparr>emailProvider = Sendgrid,
          jira_failureNotificationRecipients =
            ''csirt@procircular.com,jsherlock@procircular.com'',
          featureFlags =
            \<lparr>enableEmail = False, enableTeams = False, enableSms = False,
             enableJira = False\<rparr>\<rparr> \<and>
   classify scenario_C_call = Inquiry \<and>
   task_channel SendNonIrEmail = EmailChannel \<and>
   RetellWebhookProcessor (example_world env_email_disabled scenario_C_call) signed_request =
     \<lparr>steps = [ReadRawBody, VerifySignature, ParseJson],
      result =
        \<lparr>response =
           \<lparr>status = 200,
            jsonBody =
              ProcessedBody ''call-C'' ''NON-IR''
                \<lparr>jira = False, email = True, teams = False, sms = False\<rparr>
                \<lparr>total_count = 1, successful = 1, failed = 0\<rparr>\<rparr>,
         notificationTasks = [SendNonIrEmail],
         task_runs = [(Fulfilled, [InquiryEmail])]\<rparr>\<rparr>"
  by code_simp

end
